theory Spec2Isabelle
  imports Complex_Main
begin

section \<open>JavaScript values used by helpers/sql.js\<close>

text \<open>
  The two helpers of \<^verbatim>\<open>helpers/sql.js\<close> are pure functions over plain objects, arrays,
  strings and numbers. This section models the part of the language they rely on.

  \<^item> A string is a list of code units. The model covers the code units U+0000 to U+00FF
    (Latin-1), which is what an 8-bit \<^typ>\<open>char\<close> holds.
  \<^item> An object with string keys is an association list in the order in which
    \<^verbatim>\<open>Object.keys\<close> enumerates it; an object has no key twice, which is the predicate
    \<open>distinct (Object_keys obj)\<close> where a statement needs it.
  \<^item> \<^verbatim>\<open>undefined\<close> is \<open>None\<close>: a missing property, or the \<^verbatim>\<open>allowed\<close> parameter of a
    call that passes one argument only.
  \<^item> A thrown exception is the \<open>Inl\<close> of a sum.
  \<^item> A name map is an ordinary object whose own properties are strings, given as the
    partial function of its own properties; a property read that finds no own property
    goes on to \<^verbatim>\<open>Object.prototype\<close>.
\<close>

datatype error = BadRequestError string | TypeError

type_synonym 'v js_object = "(string \<times> 'v) list"

definition Object_keys :: "'v js_object \<Rightarrow> string list" where
  "Object_keys obj = map fst obj"

definition Object_values :: "'v js_object \<Rightarrow> 'v list" where
  "Object_values obj = map snd obj"

text \<open>Property access \<^verbatim>\<open>obj[k]\<close>.\<close>

definition get_property :: "'v js_object \<Rightarrow> string \<Rightarrow> 'v option" where
  "get_property obj k = map_of obj k"

text \<open>\<^verbatim>\<open>Array.prototype.join\<close> on an array of strings.\<close>

fun join :: "string \<Rightarrow> string list \<Rightarrow> string" where
  "join sep [] = []"
| "join sep [x] = x"
| "join sep (x # y # ys) = x @ sep @ join sep (y # ys)"

text \<open>
  \<^verbatim>\<open>Array.prototype.map\<close> and \<^verbatim>\<open>Array.prototype.every\<close> with a callback that may throw:
  the first exception ends the traversal; \<^verbatim>\<open>every\<close> stops at the first \<^verbatim>\<open>false\<close>.
\<close>

fun Array_map :: "('a \<Rightarrow> error + 'b) \<Rightarrow> 'a list \<Rightarrow> error + 'b list" where
  "Array_map f [] = Inr []"
| "Array_map f (x # xs) =
     (case f x of
        Inl e \<Rightarrow> Inl e
      | Inr y \<Rightarrow> (case Array_map f xs of Inl e \<Rightarrow> Inl e | Inr ys \<Rightarrow> Inr (y # ys)))"

fun Array_every :: "('a \<Rightarrow> error + bool) \<Rightarrow> 'a list \<Rightarrow> error + bool" where
  "Array_every p [] = Inr True"
| "Array_every p (x # xs) =
     (case p x of
        Inl e \<Rightarrow> Inl e
      | Inr b \<Rightarrow> if b then Array_every p xs else Inr False)"

text \<open>\<^verbatim>\<open>arr.includes(x)\<close>, where \<^verbatim>\<open>arr\<close> may be \<^verbatim>\<open>undefined\<close>: reading a property of
  \<^verbatim>\<open>undefined\<close> throws a TypeError.\<close>

definition Array_includes :: "'a list option \<Rightarrow> 'a \<Rightarrow> error + bool" where
  "Array_includes arr x = (case arr of None \<Rightarrow> Inl TypeError | Some xs \<Rightarrow> Inr (x \<in> set xs))"

subsection \<open>Strings\<close>

definition code_unit :: "char \<Rightarrow> int" where
  "code_unit c = of_char c"

definition quote :: char where
  "quote = CHR 0x27"

definition dquote :: char where
  "dquote = CHR 0x22"

text \<open>\<^verbatim>\<open>String.prototype.toLowerCase\<close> on Latin-1: A to Z, and U+00C0 to U+00DE without the
  multiplication sign U+00D7, move up by 32.\<close>

definition lower_char :: "char \<Rightarrow> char" where
  "lower_char c =
     (let n = code_unit c in
      if (65 \<le> n \<and> n \<le> 90) \<or> (192 \<le> n \<and> n \<le> 222 \<and> n \<noteq> 215) then char_of (n + 32) else c)"

definition toLowerCase :: "string \<Rightarrow> string" where
  "toLowerCase s = map lower_char s"

subsection \<open>Numbers: unary plus on a string\<close>

text \<open>
  A Number is NaN, an infinity or a finite binary64 value, given by its exact rational
  value. The two zeros are one value here: \<^verbatim>\<open>>=\<close> and the conversion to a string, the only
  operations the helpers apply, do not tell them apart.
\<close>

datatype jsnum = NaN | PosInfinity | NegInfinity | Finite rat

text \<open>White space that StringToNumber strips: TAB, LF, VT, FF, CR, SP and NBSP.\<close>

definition isStrWhiteSpaceChar :: "char \<Rightarrow> bool" where
  "isStrWhiteSpaceChar c = (code_unit c \<in> {9, 10, 11, 12, 13, 32, 160})"

definition trimString :: "string \<Rightarrow> string" where
  "trimString s = rev (dropWhile isStrWhiteSpaceChar (rev (dropWhile isStrWhiteSpaceChar s)))"

definition isDecimalDigit :: "char \<Rightarrow> bool" where
  "isDecimalDigit c = (48 \<le> code_unit c \<and> code_unit c \<le> 57)"

definition hexDigitValue :: "char \<Rightarrow> int option" where
  "hexDigitValue c =
     (let n = code_unit c in
      if 48 \<le> n \<and> n \<le> 57 then Some (n - 48)
      else if 97 \<le> n \<and> n \<le> 102 then Some (n - 87)
      else if 65 \<le> n \<and> n \<le> 70 then Some (n - 55)
      else None)"

text \<open>The value of a digit string in base \<open>b\<close>; \<open>None\<close> when a character is not a digit of
  that base.\<close>

fun digitsMV :: "int \<Rightarrow> int \<Rightarrow> string \<Rightarrow> int option" where
  "digitsMV b acc [] = Some acc"
| "digitsMV b acc (c # cs) =
     (case hexDigitValue c of
        None \<Rightarrow> None
      | Some d \<Rightarrow> if d < b then digitsMV b (acc * b + d) cs else None)"

definition pow_int :: "int \<Rightarrow> int \<Rightarrow> rat" where
  "pow_int b e = (if 0 \<le> e then of_int (b ^ nat e) else 1 / of_int (b ^ nat (- e)))"

definition SignedInteger :: "string \<Rightarrow> int option" where
  "SignedInteger s =
     (case s of
        [] \<Rightarrow> None
      | c # cs \<Rightarrow>
          if c = CHR ''+'' then (if cs = [] then None else digitsMV 10 0 cs)
          else if c = CHR ''-'' then (if cs = [] then None else map_option uminus (digitsMV 10 0 cs))
          else digitsMV 10 0 s)"

definition ExponentPart_opt :: "string \<Rightarrow> int option" where
  "ExponentPart_opt s =
     (case s of
        [] \<Rightarrow> Some 0
      | c # cs \<Rightarrow> if c = CHR ''e'' \<or> c = CHR ''E'' then SignedInteger cs else None)"

text \<open>The mathematical value of a literal, before rounding.\<close>

datatype mv = MVInfinity | MVFinite rat

definition StrUnsignedDecimalLiteral :: "string \<Rightarrow> mv option" where
  "StrUnsignedDecimalLiteral s =
     (if s = ''Infinity'' then Some MVInfinity
      else
        let ip = takeWhile isDecimalDigit s;
            r1 = dropWhile isDecimalDigit s;
            dot = (r1 \<noteq> [] \<and> hd r1 = CHR ''.'');
            fp = (if dot then takeWhile isDecimalDigit (tl r1) else []);
            r2 = (if dot then dropWhile isDecimalDigit (tl r1) else r1)
        in if ip = [] \<and> fp = [] then None
           else case (digitsMV 10 0 (ip @ fp), ExponentPart_opt r2) of
                  (Some m, Some e) \<Rightarrow> Some (MVFinite (of_int m * pow_int 10 (e - int (length fp))))
                | _ \<Rightarrow> None)"

definition NonDecimalIntegerLiteral :: "string \<Rightarrow> mv option" where
  "NonDecimalIntegerLiteral s =
     (case s of
        z # c # ds \<Rightarrow>
          if z = CHR ''0'' \<and> ds \<noteq> [] then
            (if c = CHR ''b'' \<or> c = CHR ''B'' then map_option (\<lambda>n. MVFinite (of_int n)) (digitsMV 2 0 ds)
             else if c = CHR ''o'' \<or> c = CHR ''O'' then map_option (\<lambda>n. MVFinite (of_int n)) (digitsMV 8 0 ds)
             else if c = CHR ''x'' \<or> c = CHR ''X'' then map_option (\<lambda>n. MVFinite (of_int n)) (digitsMV 16 0 ds)
             else None)
          else None
      | _ \<Rightarrow> None)"

text \<open>A literal is a sign (\<open>True\<close> for minus) and a magnitude; a literal in base 2, 8 or 16
  takes no sign.\<close>

definition StrNumericLiteral :: "string \<Rightarrow> (bool \<times> mv) option" where
  "StrNumericLiteral s =
     (case NonDecimalIntegerLiteral s of
        Some m \<Rightarrow> Some (False, m)
      | None \<Rightarrow>
         (case s of
            [] \<Rightarrow> None
          | c # cs \<Rightarrow>
              if c = CHR ''+'' then map_option (Pair False) (StrUnsignedDecimalLiteral cs)
              else if c = CHR ''-'' then map_option (Pair True) (StrUnsignedDecimalLiteral cs)
              else map_option (Pair False) (StrUnsignedDecimalLiteral s)))"

text \<open>The number of digits of \<open>n\<close> in base \<open>b\<close>.\<close>

function digit_count :: "int \<Rightarrow> int \<Rightarrow> nat" where
  "digit_count b n = (if 0 < n \<and> 1 < b then Suc (digit_count b (n div b)) else 0)"
  by pat_completeness auto
termination
  by (relation "measure (\<lambda>(b, n). nat n)") (auto simp: nat_less_iff intro: int_div_less_self)

declare digit_count.simps [simp del]

text \<open>For \<open>q > 0\<close>, the integer \<open>e\<close> with \<open>b ^ e \<le> q < b ^ (e + 1)\<close>.\<close>

definition floorlog_rat :: "int \<Rightarrow> rat \<Rightarrow> int" where
  "floorlog_rat b q =
     (let (n, d) = quotient_of q;
          e = int (digit_count b n) - int (digit_count b d)
      in if pow_int b e \<le> q then e else e - 1)"

definition round_ties_even :: "rat \<Rightarrow> int" where
  "round_ties_even q =
     (let f = \<lfloor>q\<rfloor>; d = q - of_int f
      in if d < 1 / 2 then f
         else if 1 / 2 < d then f + 1
         else if even f then f else f + 1)"

text \<open>Rounding to binary64, to nearest with ties to even: 53 significant bits, the least
  exponent -1022 (below it the spacing stays \<open>2 ^ -1074\<close>), overflow to an infinity.\<close>

definition roundToDouble :: "rat \<Rightarrow> jsnum" where
  "roundToDouble q =
     (if q = 0 then Finite 0
      else
        let a = \<bar>q\<bar>;
            e = max (floorlog_rat 2 a) (- 1022);
            ulp = pow_int 2 (e - 52);
            r = of_int (round_ties_even (a / ulp)) * ulp
        in if pow_int 2 1024 \<le> r then (if q < 0 then NegInfinity else PosInfinity)
           else Finite (if q < 0 then - r else r))"

definition StringToNumber :: "string \<Rightarrow> jsnum" where
  "StringToNumber s =
     (let t = trimString s in
      if t = [] then Finite 0
      else case StrNumericLiteral t of
             None \<Rightarrow> NaN
           | Some (neg, MVInfinity) \<Rightarrow> if neg then NegInfinity else PosInfinity
           | Some (neg, MVFinite q) \<Rightarrow> roundToDouble (if neg then - q else q))"

text \<open>Unary plus, \<^verbatim>\<open>+v\<close>, on a string or \<^verbatim>\<open>undefined\<close>.\<close>

definition unary_plus :: "string option \<Rightarrow> jsnum" where
  "unary_plus v = (case v of None \<Rightarrow> NaN | Some s \<Rightarrow> StringToNumber s)"

text \<open>The comparison \<^verbatim>\<open>a >= b\<close> of two Numbers: false when either is NaN.\<close>

fun js_ge :: "jsnum \<Rightarrow> jsnum \<Rightarrow> bool" where
  "js_ge NaN _ = False"
| "js_ge _ NaN = False"
| "js_ge PosInfinity _ = True"
| "js_ge _ NegInfinity = True"
| "js_ge NegInfinity _ = False"
| "js_ge _ PosInfinity = False"
| "js_ge (Finite a) (Finite b) = (b \<le> a)"

subsection \<open>Numbers: conversion to a string\<close>

definition digit_char :: "int \<Rightarrow> char" where
  "digit_char n = char_of (48 + n)"

text \<open>The decimal numeral of a non-negative integer.\<close>

function decimal :: "int \<Rightarrow> string" where
  "decimal n = (if n < 10 then [digit_char n] else decimal (n div 10) @ [digit_char (n mod 10)])"
  by pat_completeness auto
termination
  by (relation "measure nat") (auto simp: nat_less_iff intro: int_div_less_self)

declare decimal.simps [simp del]

text \<open>
  Number::toString looks for integers \<open>n\<close>, \<open>k\<close>, \<open>s\<close> with \<open>k \<ge> 1\<close>,
  \<open>10 ^ (k - 1) \<le> s < 10 ^ k\<close>, such that \<open>s * 10 ^ (n - k)\<close> rounds to the number and
  \<open>k\<close> is as small as possible. For a given \<open>k\<close> the only candidates are the two
  \<open>k\<close>-digit decimals around \<open>x\<close>; of two that fit, the closer one is taken.
\<close>

definition digit_candidate :: "rat \<Rightarrow> int \<Rightarrow> nat \<Rightarrow> (int \<times> int) option" where
  "digit_candidate x n k =
     (let scale = pow_int 10 (n - int k);
          lo = \<lfloor>x / scale\<rfloor>;
          hi = lo + 1;
          ok_lo = (roundToDouble (of_int lo * scale) = Finite x);
          ok_hi = (roundToDouble (of_int hi * scale) = Finite x);
          lo_closer = (x - of_int lo * scale < of_int hi * scale - x
                       \<or> (x - of_int lo * scale = of_int hi * scale - x \<and> even lo))
      in if ok_lo \<and> (\<not> ok_hi \<or> lo_closer) then Some (lo, n)
         else if ok_hi then Some (if hi = 10 ^ k then (10 ^ (k - 1), n + 1) else (hi, n))
         else None)"

text \<open>The search over \<open>k\<close>; 17 digits always suffice for a binary64 value.\<close>

fun shortest_from :: "rat \<Rightarrow> int \<Rightarrow> nat \<Rightarrow> nat \<Rightarrow> int \<times> int" where
  "shortest_from x n k 0 = (\<lfloor>x / pow_int 10 (n - int k)\<rfloor>, n)"
| "shortest_from x n k (Suc fuel) =
     (case digit_candidate x n k of
        Some c \<Rightarrow> c
      | None \<Rightarrow> shortest_from x n (Suc k) fuel)"

definition shortest_digits :: "rat \<Rightarrow> int \<times> int" where
  "shortest_digits x = shortest_from x (floorlog_rat 10 x + 1) 1 17"

definition Number_toString_pos :: "rat \<Rightarrow> string" where
  "Number_toString_pos x =
     (let (s, n) = shortest_digits x;
          ds = decimal s;
          k = int (length ds)
      in if k \<le> n \<and> n \<le> 21 then ds @ replicate (nat (n - k)) CHR ''0''
         else if 0 < n \<and> n \<le> 21 then take (nat n) ds @ ''.'' @ drop (nat n) ds
         else if - 6 < n \<and> n \<le> 0 then ''0.'' @ replicate (nat (- n)) CHR ''0'' @ ds
         else
           let ex = (if 0 \<le> n - 1 then ''+'' else ''-'') @ decimal \<bar>n - 1\<bar>
           in if k = 1 then ds @ ''e'' @ ex
              else take 1 ds @ ''.'' @ drop 1 ds @ ''e'' @ ex)"

text \<open>A Number inside a template literal, \<^verbatim>\<open>`${x}`\<close>.\<close>

definition Number_toString :: "jsnum \<Rightarrow> string" where
  "Number_toString x =
     (case x of
        NaN \<Rightarrow> ''NaN''
      | PosInfinity \<Rightarrow> ''Infinity''
      | NegInfinity \<Rightarrow> ''-Infinity''
      | Finite q \<Rightarrow>
          if q = 0 then ''0''
          else if q < 0 then ''-'' @ Number_toString_pos (- q)
          else Number_toString_pos q)"

section \<open>helpers/sql.js\<close>

subsection \<open>sqlForPartialUpdate\<close>

record 'v partial_update =
  setCols :: string
  values' :: "'v list"

text \<open>
  What the read \<^verbatim>\<open>jsToSql[colName]\<close> can give: an own property (a string), a built-in
  function or \<^verbatim>\<open>Object.prototype\<close> itself, both inherited, or \<^verbatim>\<open>undefined\<close>.
\<close>

datatype js_value = JSString string | JSFunction string | JSObjectPrototype | JSUndefined

text \<open>
  The members of \<^verbatim>\<open>Object.prototype\<close>, which every object literal inherits:
  \<^verbatim>\<open>constructor\<close> is the function \<^verbatim>\<open>Object\<close>, the accessor \<^verbatim>\<open>__proto__\<close> gives the prototype,
  the others are functions named as the property.
\<close>

definition Object_prototype_get :: "string \<Rightarrow> js_value" where
  "Object_prototype_get k =
     (if k = ''constructor'' then JSFunction ''Object''
      else if k = ''__proto__'' then JSObjectPrototype
      else if k \<in> set [''hasOwnProperty'', ''isPrototypeOf'', ''propertyIsEnumerable'',
                       ''toLocaleString'', ''toString'', ''valueOf'',
                       ''__defineGetter__'', ''__defineSetter__'',
                       ''__lookupGetter__'', ''__lookupSetter__'']
        then JSFunction k
      else JSUndefined)"

text \<open>The read \<^verbatim>\<open>obj[k]\<close> on a name map: the own property first, then the prototype.\<close>

definition get_member :: "(string \<rightharpoonup> string) \<Rightarrow> string \<Rightarrow> js_value" where
  "get_member obj k = (case obj k of Some s \<Rightarrow> JSString s | None \<Rightarrow> Object_prototype_get k)"

text \<open>Truthiness: the empty string and \<^verbatim>\<open>undefined\<close> are falsy, functions and objects truthy.\<close>

definition ToBoolean :: "js_value \<Rightarrow> bool" where
  "ToBoolean x =
     (case x of JSString s \<Rightarrow> s \<noteq> [] | JSFunction _ \<Rightarrow> True | JSObjectPrototype \<Rightarrow> True
      | JSUndefined \<Rightarrow> False)"

text \<open>A value inside a template literal; a built-in function prints as Node.js prints it.\<close>

definition ToString :: "js_value \<Rightarrow> string" where
  "ToString x =
     (case x of
        JSString s \<Rightarrow> s
      | JSFunction name \<Rightarrow> ''function '' @ name @ ''() { [native code] }''
      | JSObjectPrototype \<Rightarrow> ''[object Object]''
      | JSUndefined \<Rightarrow> ''undefined'')"

text \<open>
  The index of a key is an array index, an integer below \<open>2 ^ 32\<close>, so \<^verbatim>\<open>${idx + 1}\<close> is
  the decimal numeral of \<open>idx + 1\<close>. The column is \<^verbatim>\<open>${jsToSql[colName] || colName}\<close>: the
  value read if it is truthy, else the key; the string value of either.
\<close>

definition sqlForPartialUpdate ::
  "'v js_object \<Rightarrow> (string \<rightharpoonup> string) \<Rightarrow> error + 'v partial_update" where
  "sqlForPartialUpdate dataToUpdate jsToSql =
     (let keys = Object_keys dataToUpdate in
      if length keys = 0 then Inl (BadRequestError ''No data'')
      else
        let cols = map (\<lambda>(colName, idx).
                     [dquote]
                     @ (if ToBoolean (get_member jsToSql colName)
                        then ToString (get_member jsToSql colName) else colName)
                     @ [dquote] @ ''=$'' @ decimal (int idx + 1))
                   (zip keys [0..<length keys])
        in Inr \<lparr>setCols = join '', '' cols, values' = Object_values dataToUpdate\<rparr>)"

subsection \<open>sqlForFilterQueries\<close>

text \<open>
  The callback of \<^verbatim>\<open>keys.map\<close>: one fragment for one key. \<^verbatim>\<open>toLowerCase\<close> is a method
  call, so it throws a TypeError on \<^verbatim>\<open>undefined\<close>; unary plus turns \<^verbatim>\<open>undefined\<close> into NaN.
  Every read \<^verbatim>\<open>queries[colName]\<close> is of a key that \<^verbatim>\<open>Object.keys\<close> has listed, an own
  property, so no read reaches the prototype.
\<close>

definition queryFragment :: "string js_object \<Rightarrow> string \<Rightarrow> error + string" where
  "queryFragment queries colName =
     (if colName = ''minEmployees'' \<or> colName = ''maxEmployees'' then
        Inr (if colName = ''minEmployees''
             then ''num_employees >= '' @ Number_toString (unary_plus (get_property queries colName))
             else ''num_employees <= '' @ Number_toString (unary_plus (get_property queries colName)))
      else if colName = ''minSalary'' then
        Inr (''salary >= '' @ Number_toString (unary_plus (get_property queries colName)))
      else if colName = ''hasEquity'' then
        (case get_property queries ''hasEquity'' of
           None \<Rightarrow> Inl TypeError
         | Some v \<Rightarrow> Inr (if toLowerCase v = ''true'' then ''equity > 0'' else ''equity >= 0''))
      else
        (case get_property queries colName of
           None \<Rightarrow> Inl TypeError
         | Some v \<Rightarrow>
             Inr (''lower('' @ colName @ '') LIKE '' @ [quote] @ ''%'' @ toLowerCase v @ ''%'' @ [quote])))"

text \<open>
  \<open>REJECTEDVALUES\<close> is imported from \<^verbatim>\<open>config.js\<close>, which is not among the sources at
  hand: it is a parameter of the model. \<open>allowed\<close> is \<open>None\<close> when the caller passes no
  second argument. The values of \<open>queries\<close> are strings, as query parameters are; a
  value that the query parser turns into an array or a nested object is not modelled.
\<close>

definition sqlForFilterQueries ::
  "string list \<Rightarrow> string js_object \<Rightarrow> string list option \<Rightarrow> error + string" where
  "sqlForFilterQueries REJECTEDVALUES queries allowed =
     (let keys = Object_keys queries;
          vals = Object_values queries
      in case Array_every (\<lambda>key. Array_includes allowed key) keys of
           Inl e \<Rightarrow> Inl e
         | Inr every_allowed \<Rightarrow>
             if \<not> every_allowed then Inl (BadRequestError ''invalid query parameter'')
             else if list_ex (\<lambda>val. val \<in> set REJECTEDVALUES) vals
               then Inl (BadRequestError ''invalid query value'')
             else if ''minEmployees'' \<in> set keys \<and> ''maxEmployees'' \<in> set keys
                     \<and> js_ge (unary_plus (get_property queries ''minEmployees''))
                              (unary_plus (get_property queries ''maxEmployees''))
               then Inl (BadRequestError ''minEmployees cannot be larger than maxEmployees'')
             else (case Array_map (queryFragment queries) keys of
                     Inl e \<Rightarrow> Inl e
                   | Inr queryString \<Rightarrow> Inr (join '' AND '' queryString)))"

section \<open>models/job.js\<close>

text \<open>
  The first statement of \<^verbatim>\<open>Job.filter\<close>,
  \<^verbatim>\<open>const queryString = sqlForFilterQueries(queries)\<close>: one argument, so \<^verbatim>\<open>allowed\<close> is
  \<^verbatim>\<open>undefined\<close>. The SQL text and the database query that follow run only when it returns.
\<close>

definition Job_filter_queryString :: "string list \<Rightarrow> string js_object \<Rightarrow> error + string" where
  "Job_filter_queryString REJECTEDVALUES queries = sqlForFilterQueries REJECTEDVALUES queries None"

section \<open>The behaviour the specification describes\<close>

text \<open>
  The fragment table of the specification (section 4.2), read for the keys the code
  dispatches on: the count column is \<^verbatim>\<open>num_employees\<close>, a numeric value is the value
  coerced to a number, every other key is a free-text field.
\<close>

definition spec_fragment :: "string \<Rightarrow> string \<Rightarrow> string" where
  "spec_fragment key val =
     (if key = ''minEmployees'' then ''num_employees >= '' @ Number_toString (StringToNumber val)
      else if key = ''maxEmployees'' then ''num_employees <= '' @ Number_toString (StringToNumber val)
      else if key = ''minSalary'' then ''salary >= '' @ Number_toString (StringToNumber val)
      else if key = ''hasEquity'' then
        (if toLowerCase val = ''true'' then ''equity > 0'' else ''equity >= 0'')
      else ''lower('' @ key @ '') LIKE '' @ [quote] @ ''%'' @ toLowerCase val @ ''%'' @ [quote])"

text \<open>One fragment for each entry of the map, in iteration order, joined by " AND ".\<close>

definition spec_compileFilter :: "string js_object \<Rightarrow> string" where
  "spec_compileFilter queries = join '' AND '' (map (\<lambda>(key, val). spec_fragment key val) queries)"

text \<open>
  The partial-update compiler as the specification describes it (section 4.1): the column
  is \<^verbatim>\<open>nameMap[key]\<close> if present, else the key; the fragment is \<^verbatim>\<open>"<column>"=$<position>\<close>;
  positions run from 1 to the number of keys.
\<close>

definition spec_column :: "(string \<rightharpoonup> string) \<Rightarrow> string \<Rightarrow> string" where
  "spec_column nameMap key = (case nameMap key of Some column \<Rightarrow> column | None \<Rightarrow> key)"

definition spec_assignment :: "string \<Rightarrow> int \<Rightarrow> string" where
  "spec_assignment column position = [dquote] @ column @ [dquote] @ ''=$'' @ decimal position"

definition spec_compileUpdate :: "'v js_object \<Rightarrow> (string \<rightharpoonup> string) \<Rightarrow> 'v partial_update" where
  "spec_compileUpdate data nameMap =
     \<lparr>setCols = join '', ''
        (map2 (\<lambda>key position. spec_assignment (spec_column nameMap key) position)
           (map fst data) [1..int (length data)]),
      values' = map snd data\<rparr>"

text \<open>
  Modelled from the spec: the constant \<^verbatim>\<open>REJECTEDVALUES\<close> of \<^verbatim>\<open>config.js\<close>, a file that is
  not among the sources at hand. The specification names the empty string, a
  whitespace-only string, and the literals for null and undefined. The general statements
  below hold for every value of the constant; this one instantiates them.
\<close>

definition REJECTEDVALUES_spec :: "string list" where
  "REJECTEDVALUES_spec = ['''', '' '', ''null'', ''undefined'']"

text \<open>The allow-list of the helper's own tests (\<^verbatim>\<open>helpers/sql.test.js\<close>).\<close>

definition test_allowed :: "string list" where
  "test_allowed = [''name'', ''minEmployees'', ''maxEmployees'', ''title'', ''minSalary'', ''hasEquity'']"

section \<open>Auxiliary lemmas\<close>

text \<open>The number model on some inputs: what \<^verbatim>\<open>`${+s}`\<close> gives for a string \<open>s\<close>.\<close>

lemma unary_plus_examples:
  "Number_toString (StringToNumber ''50000'') = ''50000''"
  "Number_toString (StringToNumber '' 12 '') = ''12''"
  "Number_toString (StringToNumber ''007'') = ''7''"
  "Number_toString (StringToNumber ''0x1F'') = ''31''"
  "Number_toString (StringToNumber ''1e3'') = ''1000''"
  "Number_toString (StringToNumber ''-2.50'') = ''-2.5''"
  "Number_toString (StringToNumber ''0.1'') = ''0.1''"
  "Number_toString (StringToNumber ''1e21'') = ''1e+21''"
  "Number_toString (StringToNumber ''Infinity'') = ''Infinity''"
  "Number_toString (StringToNumber ''12px'') = ''NaN''"
  "Number_toString (StringToNumber ''1,5'') = ''NaN''"
  by code_simp+

text \<open>On a position, \<^verbatim>\<open>`${idx + 1}`\<close> is the decimal numeral.\<close>

lemma position_examples:
  "Number_toString (Finite 1) = decimal 1"
  "Number_toString (Finite 2) = decimal 2"
  "Number_toString (Finite 10) = decimal 10"
  "Number_toString (Finite 12) = decimal 12"
  by code_simp+

lemma Array_every_includes_Some:
  "Array_every (\<lambda>key. Array_includes (Some a) key) keys = Inr (set keys \<subseteq> set a)"
  by (induction keys) (auto simp: Array_includes_def)

lemma Array_every_includes_None:
  "Array_every (\<lambda>key. Array_includes None key) keys = (if keys = [] then Inr True else Inl TypeError)"
  by (cases keys) (simp_all add: Array_includes_def)

lemma get_property_own_key:
  assumes "k \<in> set (Object_keys q)"
  shows "\<exists>v. get_property q k = Some v"
proof -
  have "map_of q k \<noteq> None"
    using assms by (simp add: Object_keys_def map_of_eq_None_iff)
  then show ?thesis
    by (simp add: get_property_def)
qed

lemma get_property_key:
  assumes "get_property q k = Some v"
  shows "k \<in> set (Object_keys q)"
proof -
  have "(k, v) \<in> set q"
    using assms by (simp add: get_property_def map_of_SomeD)
  then have "fst (k, v) \<in> fst ` set q"
    by (rule imageI)
  then show ?thesis
    by (simp add: Object_keys_def)
qed

lemma get_property_entry:
  "distinct (Object_keys q) \<Longrightarrow> (k, v) \<in> set q \<Longrightarrow> get_property q k = Some v"
  by (simp add: Object_keys_def get_property_def)

lemma queryFragment_value:
  assumes "get_property q k = Some v"
  shows "queryFragment q k = Inr (spec_fragment k v)"
proof -
  consider "k = ''minEmployees''" | "k = ''maxEmployees''" | "k = ''minSalary''" | "k = ''hasEquity''"
    | "k \<noteq> ''minEmployees''" "k \<noteq> ''maxEmployees''" "k \<noteq> ''minSalary''" "k \<noteq> ''hasEquity''"
    by blast
  then show ?thesis
  proof cases
    case 1 with assms show ?thesis
      by (simp add: queryFragment_def spec_fragment_def unary_plus_def)
  next
    case 2 with assms show ?thesis
      by (simp add: queryFragment_def spec_fragment_def unary_plus_def)
  next
    case 3 with assms show ?thesis
      by (simp add: queryFragment_def spec_fragment_def unary_plus_def)
  next
    case 4 with assms show ?thesis
      by (simp add: queryFragment_def spec_fragment_def unary_plus_def)
  next
    case 5 with assms show ?thesis
      by (simp add: queryFragment_def spec_fragment_def unary_plus_def)
  qed
qed

lemma Array_map_keys:
  "(\<And>kv. kv \<in> set xs \<Longrightarrow> f (fst kv) = Inr (g kv)) \<Longrightarrow> Array_map f (map fst xs) = Inr (map g xs)"
  by (induction xs) simp_all

lemma Array_map_queryFragment:
  assumes "distinct (Object_keys q)"
  shows "Array_map (queryFragment q) (Object_keys q) = Inr (map (\<lambda>(k, v). spec_fragment k v) q)"
  unfolding Object_keys_def
proof (rule Array_map_keys)
  fix kv assume "kv \<in> set q"
  then have "get_property q (fst kv) = Some (snd kv)"
    using assms get_property_entry [of q "fst kv" "snd kv"] by simp
  then show "queryFragment q (fst kv) = Inr (case kv of (k, v) \<Rightarrow> spec_fragment k v)"
    by (simp add: queryFragment_value split: prod.split)
qed

lemma list_ex_rejected:
  "list_ex (\<lambda>val. val \<in> set R) vals \<longleftrightarrow> set vals \<inter> set R \<noteq> {}"
  by (auto simp: list_ex_iff)

lemma sqlForFilterQueries_valid:
  assumes "distinct (Object_keys queries)"
    and "set (Object_keys queries) \<subseteq> set allowed"
    and "set (Object_values queries) \<inter> set REJECTEDVALUES = {}"
    and "\<not> (''minEmployees'' \<in> set (Object_keys queries) \<and> ''maxEmployees'' \<in> set (Object_keys queries)
            \<and> js_ge (unary_plus (get_property queries ''minEmployees''))
                     (unary_plus (get_property queries ''maxEmployees'')))"
  shows "sqlForFilterQueries REJECTEDVALUES queries (Some allowed) = Inr (spec_compileFilter queries)"
  using assms
  by (simp add: sqlForFilterQueries_def Let_def Array_every_includes_Some list_ex_rejected
      Array_map_queryFragment spec_compileFilter_def)

lemma sqlForFilterQueries_not_allowed:
  "k \<in> set (Object_keys queries) \<Longrightarrow> k \<notin> set allowed \<Longrightarrow>
   sqlForFilterQueries REJECTEDVALUES queries (Some allowed) = Inl (BadRequestError ''invalid query parameter'')"
  by (auto simp: sqlForFilterQueries_def Let_def Array_every_includes_Some)

lemma Job_filter_TypeError:
  "queries \<noteq> [] \<Longrightarrow> Job_filter_queryString REJECTEDVALUES queries = Inl TypeError"
  by (simp add: Job_filter_queryString_def sqlForFilterQueries_def Let_def Array_every_includes_None Object_keys_def)

lemma sqlForFilterQueries_rejected:
  "set (Object_keys queries) \<subseteq> set allowed \<Longrightarrow> v \<in> set (Object_values queries) \<Longrightarrow> v \<in> set REJECTEDVALUES \<Longrightarrow>
   sqlForFilterQueries REJECTEDVALUES queries (Some allowed) = Inl (BadRequestError ''invalid query value'')"
  by (auto simp: sqlForFilterQueries_def Let_def Array_every_includes_Some list_ex_rejected)

lemma Array_map_error:
  "Array_map (queryFragment q) keys = Inl e \<Longrightarrow> e = TypeError"
proof (induction keys)
  case Nil
  then show ?case by simp
next
  case (Cons k keys)
  then show ?case
    by (auto simp: queryFragment_def split: sum.splits option.splits if_splits)
qed

lemma Array_every_error:
  "Array_every (\<lambda>key. Array_includes allowed key) keys = Inl e \<Longrightarrow> e = TypeError"
  by (cases allowed) (simp_all add: Array_every_includes_Some Array_every_includes_None split: if_splits)

lemma sqlForFilterQueries_range_only:
  assumes "\<not> (''minEmployees'' \<in> set (Object_keys queries) \<and> ''maxEmployees'' \<in> set (Object_keys queries))"
  shows "sqlForFilterQueries R queries allowed \<noteq> Inl (BadRequestError ''minEmployees cannot be larger than maxEmployees'')"
proof
  assume a: "sqlForFilterQueries R queries allowed = Inl (BadRequestError ''minEmployees cannot be larger than maxEmployees'')"
  show False
  proof (cases "Array_every (\<lambda>key. Array_includes allowed key) (Object_keys queries)")
    case (Inl e)
    then have "e = TypeError" by (rule Array_every_error)
    with a Inl show False by (simp add: sqlForFilterQueries_def Let_def)
  next
    case (Inr b)
    show False
    proof (cases "Array_map (queryFragment queries) (Object_keys queries)")
      case (Inl e)
      then have "e = TypeError" by (rule Array_map_error)
      with a Inr Inl assms show False
        by (simp add: sqlForFilterQueries_def Let_def split: if_splits)
    next
      case r: (Inr frs)
      with a Inr assms show False
        by (simp add: sqlForFilterQueries_def Let_def split: if_splits)
    qed
  qed
qed

lemma sqlForFilterQueries_range:
  assumes "get_property queries ''minEmployees'' = Some lo"
    and "get_property queries ''maxEmployees'' = Some hi"
    and "js_ge (StringToNumber lo) (StringToNumber hi)"
    and "set (Object_keys queries) \<subseteq> set allowed"
    and "set (Object_values queries) \<inter> set R = {}"
  shows "sqlForFilterQueries R queries (Some allowed)
         = Inl (BadRequestError ''minEmployees cannot be larger than maxEmployees'')"
proof -
  have "''minEmployees'' \<in> set (Object_keys queries)" "''maxEmployees'' \<in> set (Object_keys queries)"
    using assms(1,2) by (auto dest: get_property_key)
  then show ?thesis
    using assms
    by (simp add: sqlForFilterQueries_def Let_def Array_every_includes_Some list_ex_rejected unary_plus_def)
qed

lemma sqlForFilterQueries_range_fails:
  assumes "get_property queries ''minEmployees'' = Some lo"
    and "get_property queries ''maxEmployees'' = Some hi"
    and "js_ge (StringToNumber lo) (StringToNumber hi)"
  shows "\<exists>m. sqlForFilterQueries R queries (Some allowed) = Inl (BadRequestError m)"
proof -
  have "''minEmployees'' \<in> set (Object_keys queries)" "''maxEmployees'' \<in> set (Object_keys queries)"
    using assms(1,2) by (auto dest: get_property_key)
  then show ?thesis
    using assms
    by (simp add: sqlForFilterQueries_def Let_def Array_every_includes_Some unary_plus_def)
qed

lemma hexDigitValue_digit_char:
  "0 \<le> d \<Longrightarrow> d < 10 \<Longrightarrow> hexDigitValue (digit_char d) = Some d"
  by (simp add: hexDigitValue_def digit_char_def code_unit_def Let_def)

lemma digitsMV_append:
  "digitsMV b acc (xs @ ys) = (case digitsMV b acc xs of None \<Rightarrow> None | Some a \<Rightarrow> digitsMV b a ys)"
  by (induction xs arbitrary: acc) (simp_all split: option.splits)

lemma decimal_roundtrip:
  "0 \<le> n \<Longrightarrow> digitsMV 10 0 (decimal n) = Some n"
proof (induction n rule: decimal.induct)
  case (1 n)
  show ?case
  proof (cases "n < 10")
    case True
    with "1.prems" show ?thesis
      by (subst decimal.simps) (simp add: hexDigitValue_digit_char)
  next
    case False
    with "1.prems" have ih: "digitsMV 10 0 (decimal (n div 10)) = Some (n div 10)"
      using "1.IH" by simp
    have d: "hexDigitValue (digit_char (n mod 10)) = Some (n mod 10)"
      by (rule hexDigitValue_digit_char) simp_all
    from False show ?thesis
      by (subst decimal.simps) (simp add: digitsMV_append ih d)
  qed
qed

lemma positions_upto:
  "map (\<lambda>idx. int idx + 1) [0..<n] = [1..int n]"
proof (induction n)
  case 0
  show ?case by simp
next
  case (Suc n)
  have "[1..int (Suc n)] = [1..int n] @ [int n + 1]"
    using upto_rec2 [of 1 "int n + 1"] by (simp add: add.commute)
  with Suc show ?case by simp
qed

lemma cols_by_position:
  "map (\<lambda>(colName, idx). f colName (int idx + 1)) (zip keys [0..<length keys])
   = map2 f keys [1..int (length keys)]"
proof -
  have "zip keys [1..int (length keys)]
        = map (\<lambda>(colName, idx). (colName, int idx + 1)) (zip keys [0..<length keys])"
    by (simp add: positions_upto [symmetric] zip_map2 del: upt_Suc)
  then show ?thesis
    by (simp add: case_prod_unfold comp_def)
qed

lemma sqlForPartialUpdate_value:
  assumes "dataToUpdate \<noteq> []"
  shows "sqlForPartialUpdate dataToUpdate jsToSql
         = Inr \<lparr>setCols = join '', ''
                  (map2 (\<lambda>key position.
                           spec_assignment
                             (if ToBoolean (get_member jsToSql key)
                              then ToString (get_member jsToSql key) else key)
                             position)
                     (Object_keys dataToUpdate) [1..int (length dataToUpdate)]),
                values' = Object_values dataToUpdate\<rparr>"
proof -
  have n: "length (Object_keys dataToUpdate) = length dataToUpdate"
    by (simp add: Object_keys_def)
  have "map (\<lambda>(colName, idx). [dquote]
               @ (if ToBoolean (get_member jsToSql colName)
                  then ToString (get_member jsToSql colName) else colName)
               @ [dquote] @ ''=$'' @ decimal (int idx + 1))
          (zip (Object_keys dataToUpdate) [0..<length (Object_keys dataToUpdate)])
        = map2 (\<lambda>key position.
                  spec_assignment
                    (if ToBoolean (get_member jsToSql key)
                     then ToString (get_member jsToSql key) else key) position)
            (Object_keys dataToUpdate) [1..int (length (Object_keys dataToUpdate))]"
    using cols_by_position
      [of "\<lambda>key position. spec_assignment
             (if ToBoolean (get_member jsToSql key)
              then ToString (get_member jsToSql key) else key) position"
          "Object_keys dataToUpdate"]
    by (simp add: spec_assignment_def)
  moreover have "Object_keys dataToUpdate \<noteq> []"
    using assms by (simp add: Object_keys_def)
  ultimately show ?thesis
    using n by (simp add: sqlForPartialUpdate_def Let_def)
qed

text \<open>
  Where \<^verbatim>\<open>||\<close> and "is contained in" agree: an own property that is not the empty string,
  or no own property and no inherited member of that name.
\<close>

lemma column_agrees:
  assumes "jsToSql key \<noteq> Some []"
    and "jsToSql key = None \<longrightarrow> Object_prototype_get key = JSUndefined"
  shows "(if ToBoolean (get_member jsToSql key) then ToString (get_member jsToSql key) else key)
         = spec_column jsToSql key"
  using assms
  by (cases "jsToSql key") (simp_all add: get_member_def ToBoolean_def ToString_def spec_column_def)

lemma sqlForPartialUpdate_agrees:
  assumes "dataToUpdate \<noteq> []"
    and "\<And>key. key \<in> set (Object_keys dataToUpdate) \<Longrightarrow>
           jsToSql key \<noteq> Some [] \<and> (jsToSql key = None \<longrightarrow> Object_prototype_get key = JSUndefined)"
  shows "sqlForPartialUpdate dataToUpdate jsToSql = Inr (spec_compileUpdate dataToUpdate jsToSql)"
proof -
  have "map2 (\<lambda>key position.
               spec_assignment
                 (if ToBoolean (get_member jsToSql key)
                  then ToString (get_member jsToSql key) else key) position)
          (Object_keys dataToUpdate) [1..int (length dataToUpdate)]
        = map2 (\<lambda>key position. spec_assignment (spec_column jsToSql key) position)
            (Object_keys dataToUpdate) [1..int (length dataToUpdate)]"
  proof (rule map_cong [OF refl])
    fix kp assume "kp \<in> set (zip (Object_keys dataToUpdate) [1..int (length dataToUpdate)])"
    then have "fst kp \<in> set (Object_keys dataToUpdate)"
      by (metis prod.collapse set_zip_leftD)
    then have "(if ToBoolean (get_member jsToSql (fst kp))
                then ToString (get_member jsToSql (fst kp)) else fst kp)
               = spec_column jsToSql (fst kp)"
      using assms(2) column_agrees by blast
    then show "(case kp of (key, position) \<Rightarrow>
                  spec_assignment
                    (if ToBoolean (get_member jsToSql key)
                     then ToString (get_member jsToSql key) else key) position)
               = (case kp of (key, position) \<Rightarrow> spec_assignment (spec_column jsToSql key) position)"
      by (simp add: case_prod_unfold)
  qed
  then show ?thesis
    unfolding sqlForPartialUpdate_value [OF assms(1)] spec_compileUpdate_def
    by (simp only: Object_keys_def Object_values_def)
qed

text \<open>The example of the docstring of \<open>sqlForPartialUpdate\<close>.\<close>

lemma sqlForPartialUpdate_docstring_example:
  "sqlForPartialUpdate [(''firstName'', Inl ''Aliya''), (''age'', Inr (32::int))]
     [''firstName'' \<mapsto> ''first_name'']
   = Inr \<lparr>setCols = [dquote] @ ''first_name'' @ [dquote] @ ''=$1, '' @ [dquote] @ ''age'' @ [dquote] @ ''=$2'',
          values' = [Inl ''Aliya'', Inr 32]\<rparr>"
  by code_simp

text \<open>Reading a placeholder's numeral back gives its position: no two placeholders coincide.\<close>

lemma placeholders_distinct:
  "\<forall>position \<in> set [1..int (length dataToUpdate)]. digitsMV 10 0 (decimal position) = Some position"
proof
  fix position assume "position \<in> set [1..int (length dataToUpdate)]"
  then have "0 \<le> position" by simp
  then show "digitsMV 10 0 (decimal position) = Some position"
    by (rule decimal_roundtrip)
qed

text \<open>
  The rejected-value test is membership in a fixed list: whatever the list holds, a long
  enough string of spaces is not in it.
\<close>

lemma long_string_not_member:
  "replicate (Suc (sum_list (map length R))) c \<notin> set R"
proof
  assume "replicate (Suc (sum_list (map length R))) c \<in> set R"
  then have "length (replicate (Suc (sum_list (map length R))) c) \<in> set (map length R)"
    by (metis imageI set_map)
  then have "length (replicate (Suc (sum_list (map length R))) c) \<le> sum_list (map length R)"
    by (simp add: member_le_sum_list)
  then show False by simp
qed

lemma toLowerCase_spaces:
  "toLowerCase (replicate n CHR '' '') = replicate n CHR '' ''"
  by (simp add: toLowerCase_def lower_char_def code_unit_def)

lemma sqlForFilterQueries_single:
  assumes "k \<in> set allowed" and "w \<notin> set REJECTEDVALUES"
  shows "sqlForFilterQueries REJECTEDVALUES [(k, w)] (Some allowed) = Inr (spec_fragment k w)"
proof -
  have "\<not> (''minEmployees'' \<in> set (Object_keys [(k, w)]) \<and> ''maxEmployees'' \<in> set (Object_keys [(k, w)])
            \<and> js_ge (unary_plus (get_property [(k, w)] ''minEmployees''))
                     (unary_plus (get_property [(k, w)] ''maxEmployees'')))"
    by (auto simp: Object_keys_def)
  then have "sqlForFilterQueries REJECTEDVALUES [(k, w)] (Some allowed) = Inr (spec_compileFilter [(k, w)])"
    using assms by (intro sqlForFilterQueries_valid) (simp_all add: Object_keys_def Object_values_def)
  then show ?thesis
    by (simp add: spec_compileFilter_def)
qed

lemma whitespace_value_accepted:
  assumes "k \<in> set allowed"
  shows "\<exists>n. 0 < n \<and> sqlForFilterQueries REJECTEDVALUES [(k, replicate n CHR '' '')] (Some allowed)
                     = Inr (spec_fragment k (replicate n CHR '' ''))"
  using sqlForFilterQueries_single [OF assms long_string_not_member [of REJECTEDVALUES "CHR '' ''"]]
  by blast

lemma sqlForFilterQueries_Inr:
  assumes "sqlForFilterQueries REJECTEDVALUES queries allowed = Inr s"
    and "Array_map (queryFragment queries) (Object_keys queries) = Inr queryString"
  shows "s = join '' AND '' queryString"
  using assms
  by (simp add: sqlForFilterQueries_def Let_def split: sum.splits if_splits)

lemma join_contains:
  "x \<in> set frs \<Longrightarrow> \<exists>ps ss. join sep frs = ps @ x @ ss"
proof (induction sep frs rule: join.induct)
  case (1 sep)
  then show ?case by simp
next
  case (2 sep y)
  then have "join sep [y] = [] @ x @ []" by simp
  then show ?case by blast
next
  case (3 sep y z zs)
  show ?case
  proof (cases "x = y")
    case True
    then have "join sep (y # z # zs) = [] @ x @ (sep @ join sep (z # zs))" by simp
    then show ?thesis by blast
  next
    case False
    with 3 obtain ps ss where "join sep (z # zs) = ps @ x @ ss" by auto
    then have "join sep (y # z # zs) = (y @ sep @ ps) @ x @ ss" by simp
    then show ?thesis by blast
  qed
qed

lemma js_ge_NaN_right: "\<not> js_ge x NaN"
  by (cases x) simp_all

lemma roundToDouble_not_NaN: "roundToDouble q \<noteq> NaN"
  by (simp add: roundToDouble_def Let_def)

lemma StringToNumber_NaN_iff:
  "StringToNumber s = NaN \<longleftrightarrow> trimString s \<noteq> [] \<and> StrNumericLiteral (trimString s) = None"
  by (auto simp: StringToNumber_def Let_def roundToDouble_not_NaN split: option.splits mv.splits)

lemma Number_toString_NaN: "Number_toString NaN = ''NaN''"
  by (simp add: Number_toString_def)

lemma spec_fragment_NaN:
  assumes "StringToNumber v = NaN"
    and "k = ''minEmployees'' \<or> k = ''maxEmployees'' \<or> k = ''minSalary''"
  shows "spec_fragment k v
         = (if k = ''minEmployees'' then ''num_employees >= NaN''
            else if k = ''maxEmployees'' then ''num_employees <= NaN''
            else ''salary >= NaN'')"
  using assms by (auto simp: spec_fragment_def Number_toString_NaN)

lemma code_unit_range: "0 \<le> code_unit c \<and> code_unit c < 256"
proof -
  have "code_unit c = code_unit c mod 256"
    unfolding code_unit_def by (simp only: of_char_mod_256)
  then show ?thesis
    by (metis pos_mod_bound pos_mod_sign zero_less_numeral)
qed

lemma char_of_code_unit: "char_of (code_unit c) = c"
  by (simp add: code_unit_def)

lemma code_unit_char_of: "0 \<le> n \<Longrightarrow> n < 256 \<Longrightarrow> code_unit (char_of n) = n"
  by (simp add: code_unit_def)

lemma lower_char_eq_iff:
  assumes "97 \<le> (k::int)" and "k \<le> 122"
  shows "lower_char c = char_of k \<longleftrightarrow> c = char_of k \<or> c = char_of (k - 32)"
proof -
  define n where "n = code_unit c"
  have c: "c = char_of n"
    by (simp add: n_def char_of_code_unit)
  have b: "0 \<le> n" "n < 256"
    using code_unit_range [of c] by (simp_all add: n_def)
  have inj: "\<And>a b::int. 0 \<le> a \<Longrightarrow> a < 256 \<Longrightarrow> 0 \<le> b \<Longrightarrow> b < 256 \<Longrightarrow> char_of a = char_of b \<longleftrightarrow> a = b"
    by (metis code_unit_char_of)
  show ?thesis
  proof (cases "(65 \<le> n \<and> n \<le> 90) \<or> (192 \<le> n \<and> n \<le> 222 \<and> n \<noteq> 215)")
    case True
    then have l: "lower_char c = char_of (n + 32)"
      by (auto simp: lower_char_def Let_def n_def)
    have "char_of (n + 32) = char_of k \<longleftrightarrow> n + 32 = k"
      using True b assms by (intro inj) auto
    moreover have "char_of n = char_of (k - 32) \<longleftrightarrow> n = k - 32"
      using b assms by (intro inj) auto
    moreover have "char_of n = char_of k \<longleftrightarrow> n = k"
      using b assms by (intro inj) auto
    ultimately show ?thesis
      using True assms l c by auto
  next
    case False
    then have l: "lower_char c = c"
      by (auto simp: lower_char_def Let_def n_def)
    have "char_of n = char_of (k - 32) \<longleftrightarrow> n = k - 32"
      using b assms by (intro inj) auto
    then show ?thesis
      using False assms l c by auto
  qed
qed

lemma lower_char_cases:
  "lower_char c = CHR ''t'' \<longleftrightarrow> c = CHR ''t'' \<or> c = CHR ''T''"
  "lower_char c = CHR ''r'' \<longleftrightarrow> c = CHR ''r'' \<or> c = CHR ''R''"
  "lower_char c = CHR ''u'' \<longleftrightarrow> c = CHR ''u'' \<or> c = CHR ''U''"
  "lower_char c = CHR ''e'' \<longleftrightarrow> c = CHR ''e'' \<or> c = CHR ''E''"
  using lower_char_eq_iff [of 116 c] lower_char_eq_iff [of 114 c]
    lower_char_eq_iff [of 117 c] lower_char_eq_iff [of 101 c]
  by (simp_all add: char_of_def)

lemma toLowerCase_true_iff:
  "toLowerCase v = ''true'' \<longleftrightarrow>
   (\<exists>a b c d. v = [a, b, c, d] \<and> a \<in> {CHR ''t'', CHR ''T''} \<and> b \<in> {CHR ''r'', CHR ''R''}
      \<and> c \<in> {CHR ''u'', CHR ''U''} \<and> d \<in> {CHR ''e'', CHR ''E''})"
proof
  assume "toLowerCase v = ''true''"
  then obtain a b c d where v: "v = [a, b, c, d]"
    and l: "lower_char a = CHR ''t''" "lower_char b = CHR ''r''" "lower_char c = CHR ''u''" "lower_char d = CHR ''e''"
    by (auto simp: toLowerCase_def map_eq_Cons_conv)
  from l have "a \<in> {CHR ''t'', CHR ''T''}" "b \<in> {CHR ''r'', CHR ''R''}"
    "c \<in> {CHR ''u'', CHR ''U''}" "d \<in> {CHR ''e'', CHR ''E''}"
    by (simp_all only: lower_char_cases insert_iff empty_iff simp_thms)
  with v show "\<exists>a b c d. v = [a, b, c, d] \<and> a \<in> {CHR ''t'', CHR ''T''} \<and> b \<in> {CHR ''r'', CHR ''R''}
      \<and> c \<in> {CHR ''u'', CHR ''U''} \<and> d \<in> {CHR ''e'', CHR ''E''}"
    by blast
next
  assume "\<exists>a b c d. v = [a, b, c, d] \<and> a \<in> {CHR ''t'', CHR ''T''} \<and> b \<in> {CHR ''r'', CHR ''R''}
      \<and> c \<in> {CHR ''u'', CHR ''U''} \<and> d \<in> {CHR ''e'', CHR ''E''}"
  then obtain a b c d where v: "v = [a, b, c, d]"
    and m: "a \<in> {CHR ''t'', CHR ''T''}" "b \<in> {CHR ''r'', CHR ''R''}"
    "c \<in> {CHR ''u'', CHR ''U''}" "d \<in> {CHR ''e'', CHR ''E''}"
    by blast
  from m have "lower_char a = CHR ''t''" "lower_char b = CHR ''r''" "lower_char c = CHR ''u''" "lower_char d = CHR ''e''"
    by (simp_all only: lower_char_cases insert_iff empty_iff simp_thms)
  with v show "toLowerCase v = ''true''"
    by (simp add: toLowerCase_def)
qed

section \<open>Properties\<close>

text \<open>
  C1. For the filter map \<^verbatim>\<open>{name: 'anderson', minEmployees: '200', maxEmployees: '5000'}\<close>, an
  allow-list that contains its keys and rejected values that are none of its values,
  \<open>sqlForFilterQueries\<close> returns exactly
  \<^verbatim>\<open>lower(name) LIKE '%anderson%' AND num_employees >= 200 AND num_employees <= 5000\<close>.
  In general, for every valid queries map (no key twice, every key allowed, no value
  rejected, the range check passed) the result is the fragments of the specification's
  table, one per key in iteration order, joined by " AND ".
\<close>

theorem sqlForFilterQueries_compiles:
  "(set [''name'', ''minEmployees'', ''maxEmployees''] \<subseteq> set allowed
      \<and> set [''anderson'', ''200'', ''5000''] \<inter> set REJECTEDVALUES = {}
    \<longrightarrow> sqlForFilterQueries REJECTEDVALUES
          [(''name'', ''anderson''), (''minEmployees'', ''200''), (''maxEmployees'', ''5000'')]
          (Some allowed)
        = Inr (''lower(name) LIKE '' @ [quote] @ ''%anderson%'' @ [quote]
               @ '' AND num_employees >= 200 AND num_employees <= 5000''))
   \<and> (distinct (Object_keys queries)
      \<and> set (Object_keys queries) \<subseteq> set allowed'
      \<and> set (Object_values queries) \<inter> set REJECTEDVALUES' = {}
      \<and> \<not> (''minEmployees'' \<in> set (Object_keys queries) \<and> ''maxEmployees'' \<in> set (Object_keys queries)
            \<and> js_ge (unary_plus (get_property queries ''minEmployees''))
                     (unary_plus (get_property queries ''maxEmployees'')))
    \<longrightarrow> sqlForFilterQueries REJECTEDVALUES' queries (Some allowed')
        = Inr (join '' AND '' (map (\<lambda>(key, val). spec_fragment key val) queries)))"
proof (intro conjI impI)
  let ?ex = "[(''name'', ''anderson''), (''minEmployees'', ''200''), (''maxEmployees'', ''5000'')]"
  assume h: "set [''name'', ''minEmployees'', ''maxEmployees''] \<subseteq> set allowed
      \<and> set [''anderson'', ''200'', ''5000''] \<inter> set REJECTEDVALUES = {}"
  have d: "distinct (Object_keys ?ex)"
    by (simp add: Object_keys_def)
  have k: "set (Object_keys ?ex) \<subseteq> set allowed"
    using h by (simp add: Object_keys_def)
  have v: "set (Object_values ?ex) \<inter> set REJECTEDVALUES = {}"
    using h by (simp add: Object_values_def)
  have r: "\<not> js_ge (unary_plus (get_property ?ex ''minEmployees''))
                   (unary_plus (get_property ?ex ''maxEmployees''))"
    by code_simp
  have s: "spec_compileFilter ?ex
           = ''lower(name) LIKE '' @ [quote] @ ''%anderson%'' @ [quote]
             @ '' AND num_employees >= 200 AND num_employees <= 5000''"
    by code_simp
  show "sqlForFilterQueries REJECTEDVALUES ?ex (Some allowed)
        = Inr (''lower(name) LIKE '' @ [quote] @ ''%anderson%'' @ [quote]
               @ '' AND num_employees >= 200 AND num_employees <= 5000'')"
    using sqlForFilterQueries_valid [OF d k v] r s by simp
next
  assume "distinct (Object_keys queries)
      \<and> set (Object_keys queries) \<subseteq> set allowed'
      \<and> set (Object_values queries) \<inter> set REJECTEDVALUES' = {}
      \<and> \<not> (''minEmployees'' \<in> set (Object_keys queries) \<and> ''maxEmployees'' \<in> set (Object_keys queries)
            \<and> js_ge (unary_plus (get_property queries ''minEmployees''))
                     (unary_plus (get_property queries ''maxEmployees'')))"
  then show "sqlForFilterQueries REJECTEDVALUES' queries (Some allowed')
        = Inr (join '' AND '' (map (\<lambda>(key, val). spec_fragment key val) queries))"
    using sqlForFilterQueries_valid [of queries allowed' REJECTEDVALUES']
    by (simp add: spec_compileFilter_def)
qed

theorem sqlForFilterQueries_compiles_witness:
  "set [''name'', ''minEmployees'', ''maxEmployees''] \<subseteq> set test_allowed
   \<and> set [''anderson'', ''200'', ''5000''] \<inter> set REJECTEDVALUES_spec = {}
   \<and> sqlForFilterQueries REJECTEDVALUES_spec
        [(''name'', ''anderson''), (''minEmployees'', ''200''), (''maxEmployees'', ''5000'')]
        (Some test_allowed)
      = Inr (''lower(name) LIKE '' @ [quote] @ ''%anderson%'' @ [quote]
             @ '' AND num_employees >= 200 AND num_employees <= 5000'')
   \<and> distinct (Object_keys [(''title'', ''Jr. Engineer''), (''minSalary'', ''50000''), (''hasEquity'', ''TRUE'')])
   \<and> set (Object_keys [(''title'', ''Jr. Engineer''), (''minSalary'', ''50000''), (''hasEquity'', ''TRUE'')])
        \<subseteq> set test_allowed
   \<and> set (Object_values [(''title'', ''Jr. Engineer''), (''minSalary'', ''50000''), (''hasEquity'', ''TRUE'')])
        \<inter> set REJECTEDVALUES_spec = {}
   \<and> ''maxEmployees'' \<notin> set (Object_keys [(''title'', ''Jr. Engineer''), (''minSalary'', ''50000''), (''hasEquity'', ''TRUE'')])
   \<and> sqlForFilterQueries REJECTEDVALUES_spec
        [(''title'', ''Jr. Engineer''), (''minSalary'', ''50000''), (''hasEquity'', ''TRUE'')]
        (Some test_allowed)
      = Inr (''lower(title) LIKE '' @ [quote] @ ''%jr. engineer%'' @ [quote]
             @ '' AND salary >= 50000 AND equity > 0'')"
proof -
  let ?q = "[(''title'', ''Jr. Engineer''), (''minSalary'', ''50000''), (''hasEquity'', ''TRUE'')]"
  have h1: "set [''name'', ''minEmployees'', ''maxEmployees''] \<subseteq> set test_allowed"
    by (simp add: test_allowed_def)
  have h2: "set [''anderson'', ''200'', ''5000''] \<inter> set REJECTEDVALUES_spec = {}"
    by (simp add: REJECTEDVALUES_spec_def)
  have h3: "distinct (Object_keys ?q)"
    by (simp add: Object_keys_def)
  have h4: "set (Object_keys ?q) \<subseteq> set test_allowed"
    by (simp add: Object_keys_def test_allowed_def)
  have h5: "set (Object_values ?q) \<inter> set REJECTEDVALUES_spec = {}"
    by (simp add: Object_values_def REJECTEDVALUES_spec_def)
  have h6: "''maxEmployees'' \<notin> set (Object_keys ?q)"
    by (simp add: Object_keys_def)
  have e: "join '' AND '' (map (\<lambda>(key, val). spec_fragment key val) ?q)
           = ''lower(title) LIKE '' @ [quote] @ ''%jr. engineer%'' @ [quote]
             @ '' AND salary >= 50000 AND equity > 0''"
    by code_simp
  show ?thesis
    using sqlForFilterQueries_compiles
      [of test_allowed REJECTEDVALUES_spec ?q test_allowed REJECTEDVALUES_spec]
      h1 h2 h3 h4 h5 h6 e
    by simp
qed

text \<open>
  C2. For every queries map with at least one key that is not in the supplied allow-list,
  \<open>sqlForFilterQueries\<close> fails with the bad-request error "invalid query parameter"; it
  returns no fragment.
\<close>

theorem sqlForFilterQueries_invalid_parameter:
  "k \<in> set (Object_keys queries) \<Longrightarrow> k \<notin> set allowed \<Longrightarrow>
   sqlForFilterQueries REJECTEDVALUES queries (Some allowed)
   = Inl (BadRequestError ''invalid query parameter'')"
  by (rule sqlForFilterQueries_not_allowed)

theorem sqlForFilterQueries_invalid_parameter_witness:
  "''cats'' \<in> set (Object_keys [(''name'', ''llc''), (''cats'', ''200''), (''maxEmployees'', ''300'')])
   \<and> ''cats'' \<notin> set test_allowed
   \<and> sqlForFilterQueries REJECTEDVALUES_spec
        [(''name'', ''llc''), (''cats'', ''200''), (''maxEmployees'', ''300'')] (Some test_allowed)
      = Inl (BadRequestError ''invalid query parameter'')"
proof -
  have h1: "''cats'' \<in> set (Object_keys [(''name'', ''llc''), (''cats'', ''200''), (''maxEmployees'', ''300'')])"
    by (simp add: Object_keys_def)
  have h2: "''cats'' \<notin> set test_allowed"
    by (simp add: test_allowed_def)
  show ?thesis
    using sqlForFilterQueries_invalid_parameter [OF h1 h2, of REJECTEDVALUES_spec] h1 h2
    by simp
qed

text \<open>
  C3. \<^verbatim>\<open>Job.filter\<close> calls \<open>sqlForFilterQueries\<close> without an allow-list. For every
  non-empty queries map the allow-list check then reads a property of \<^verbatim>\<open>undefined\<close> and
  raises a TypeError, whatever the keys and values are: no other validation and no
  fragment generation runs.
\<close>

theorem Job_filter_raises_TypeError:
  "queries \<noteq> [] \<Longrightarrow> Job_filter_queryString REJECTEDVALUES queries = Inl TypeError"
  by (rule Job_filter_TypeError)

theorem Job_filter_raises_TypeError_witness:
  "[(''title'', ''manager''), (''minSalary'', ''40000'')] \<noteq> []
   \<and> Job_filter_queryString REJECTEDVALUES_spec [(''title'', ''manager''), (''minSalary'', ''40000'')]
      = Inl TypeError"
  using Job_filter_raises_TypeError [of "[(''title'', ''manager''), (''minSalary'', ''40000'')]" REJECTEDVALUES_spec]
  by simp

text \<open>
  C4, as first stated: every queries map with both \<^verbatim>\<open>minEmployees\<close> and \<^verbatim>\<open>maxEmployees\<close>
  whose values, as numbers, satisfy minimum \<open>\<ge>\<close> maximum fails with the range-violation
  error. The two earlier checks come first: with a key outside the allow-list the error
  is "invalid query parameter", with a rejected value it is "invalid query value".
\<close>

theorem range_error_counterexample:
  "get_property [(''cats'', ''200''), (''minEmployees'', ''400''), (''maxEmployees'', ''300'')] ''minEmployees''
     = Some ''400''
   \<and> get_property [(''cats'', ''200''), (''minEmployees'', ''400''), (''maxEmployees'', ''300'')] ''maxEmployees''
     = Some ''300''
   \<and> js_ge (StringToNumber ''400'') (StringToNumber ''300'')
   \<and> sqlForFilterQueries REJECTEDVALUES_spec
        [(''cats'', ''200''), (''minEmployees'', ''400''), (''maxEmployees'', ''300'')] (Some test_allowed)
      = Inl (BadRequestError ''invalid query parameter'')
   \<and> sqlForFilterQueries REJECTEDVALUES_spec
        [(''cats'', ''200''), (''minEmployees'', ''400''), (''maxEmployees'', ''300'')] (Some test_allowed)
      \<noteq> Inl (BadRequestError ''minEmployees cannot be larger than maxEmployees'')
   \<and> get_property [(''name'', ''''), (''minEmployees'', ''400''), (''maxEmployees'', ''300'')] ''minEmployees''
     = Some ''400''
   \<and> get_property [(''name'', ''''), (''minEmployees'', ''400''), (''maxEmployees'', ''300'')] ''maxEmployees''
     = Some ''300''
   \<and> sqlForFilterQueries REJECTEDVALUES_spec
        [(''name'', ''''), (''minEmployees'', ''400''), (''maxEmployees'', ''300'')] (Some test_allowed)
      = Inl (BadRequestError ''invalid query value'')
   \<and> sqlForFilterQueries REJECTEDVALUES_spec
        [(''name'', ''''), (''minEmployees'', ''400''), (''maxEmployees'', ''300'')] (Some test_allowed)
      \<noteq> Inl (BadRequestError ''minEmployees cannot be larger than maxEmployees'')"
proof -
  let ?q = "[(''cats'', ''200''), (''minEmployees'', ''400''), (''maxEmployees'', ''300'')]"
  let ?r = "[(''name'', ''''), (''minEmployees'', ''400''), (''maxEmployees'', ''300'')]"
  have h1: "get_property ?q ''minEmployees'' = Some ''400''" "get_property ?r ''minEmployees'' = Some ''400''"
    by (simp_all add: get_property_def)
  have h2: "get_property ?q ''maxEmployees'' = Some ''300''" "get_property ?r ''maxEmployees'' = Some ''300''"
    by (simp_all add: get_property_def)
  have h3: "js_ge (StringToNumber ''400'') (StringToNumber ''300'')"
    by code_simp
  have a: "sqlForFilterQueries REJECTEDVALUES_spec ?q (Some test_allowed)
           = Inl (BadRequestError ''invalid query parameter'')"
    by (rule sqlForFilterQueries_not_allowed [of "''cats''"])
       (simp_all add: Object_keys_def test_allowed_def)
  have b: "sqlForFilterQueries REJECTEDVALUES_spec ?r (Some test_allowed)
           = Inl (BadRequestError ''invalid query value'')"
    by (rule sqlForFilterQueries_rejected [of _ _ "''''"])
       (simp_all add: Object_keys_def Object_values_def test_allowed_def REJECTEDVALUES_spec_def)
  show ?thesis
    using h1 h2 h3 a b by simp
qed

text \<open>
  C4, amended. For every queries map with both \<^verbatim>\<open>minEmployees\<close> and \<^verbatim>\<open>maxEmployees\<close> whose
  values, as numbers, satisfy minimum \<open>\<ge>\<close> maximum: if every key is allowed and no value
  is rejected, \<open>sqlForFilterQueries\<close> fails with the range-violation error
  "minEmployees cannot be larger than maxEmployees"; in any case it fails with a
  bad-request error. No other key triggers that error: a map without both keys never
  fails with it, whatever its \<^verbatim>\<open>minSalary\<close>.
\<close>

theorem minEmployees_maxEmployees_range:
  "(get_property queries ''minEmployees'' = Some lo
      \<and> get_property queries ''maxEmployees'' = Some hi
      \<and> js_ge (StringToNumber lo) (StringToNumber hi)
      \<and> set (Object_keys queries) \<subseteq> set allowed
      \<and> set (Object_values queries) \<inter> set REJECTEDVALUES = {}
    \<longrightarrow> sqlForFilterQueries REJECTEDVALUES queries (Some allowed)
        = Inl (BadRequestError ''minEmployees cannot be larger than maxEmployees''))
   \<and> (get_property queries ''minEmployees'' = Some lo
      \<and> get_property queries ''maxEmployees'' = Some hi
      \<and> js_ge (StringToNumber lo) (StringToNumber hi)
    \<longrightarrow> (\<exists>m. sqlForFilterQueries REJECTEDVALUES queries (Some allowed) = Inl (BadRequestError m)))
   \<and> (\<not> (''minEmployees'' \<in> set (Object_keys queries') \<and> ''maxEmployees'' \<in> set (Object_keys queries'))
    \<longrightarrow> sqlForFilterQueries REJECTEDVALUES' queries' allowed'
        \<noteq> Inl (BadRequestError ''minEmployees cannot be larger than maxEmployees''))"
  using sqlForFilterQueries_range [of queries lo hi allowed REJECTEDVALUES]
    sqlForFilterQueries_range_fails [of queries lo hi REJECTEDVALUES allowed]
    sqlForFilterQueries_range_only [of queries' REJECTEDVALUES' allowed']
  by blast

theorem minEmployees_maxEmployees_range_witness:
  "get_property [(''name'', ''llc''), (''minEmployees'', ''400''), (''maxEmployees'', ''300'')] ''minEmployees''
     = Some ''400''
   \<and> get_property [(''name'', ''llc''), (''minEmployees'', ''400''), (''maxEmployees'', ''300'')] ''maxEmployees''
     = Some ''300''
   \<and> js_ge (StringToNumber ''400'') (StringToNumber ''300'')
   \<and> set (Object_keys [(''name'', ''llc''), (''minEmployees'', ''400''), (''maxEmployees'', ''300'')])
       \<subseteq> set test_allowed
   \<and> set (Object_values [(''name'', ''llc''), (''minEmployees'', ''400''), (''maxEmployees'', ''300'')])
       \<inter> set REJECTEDVALUES_spec = {}
   \<and> sqlForFilterQueries REJECTEDVALUES_spec
        [(''name'', ''llc''), (''minEmployees'', ''400''), (''maxEmployees'', ''300'')] (Some test_allowed)
      = Inl (BadRequestError ''minEmployees cannot be larger than maxEmployees'')
   \<and> ''maxEmployees'' \<notin> set (Object_keys [(''minSalary'', ''500''), (''maxSalary'', ''100'')])
   \<and> sqlForFilterQueries REJECTEDVALUES_spec [(''minSalary'', ''500''), (''maxSalary'', ''100'')]
        (Some [''minSalary'', ''maxSalary''])
      \<noteq> Inl (BadRequestError ''minEmployees cannot be larger than maxEmployees'')"
proof -
  let ?q = "[(''name'', ''llc''), (''minEmployees'', ''400''), (''maxEmployees'', ''300'')]"
  let ?q' = "[(''minSalary'', ''500''), (''maxSalary'', ''100'')]"
  have h1: "get_property ?q ''minEmployees'' = Some ''400''"
    by (simp add: get_property_def)
  have h2: "get_property ?q ''maxEmployees'' = Some ''300''"
    by (simp add: get_property_def)
  have h3: "js_ge (StringToNumber ''400'') (StringToNumber ''300'')"
    by code_simp
  have h4: "set (Object_keys ?q) \<subseteq> set test_allowed"
    by (simp add: Object_keys_def test_allowed_def)
  have h5: "set (Object_values ?q) \<inter> set REJECTEDVALUES_spec = {}"
    by (simp add: Object_values_def REJECTEDVALUES_spec_def)
  have h6: "''maxEmployees'' \<notin> set (Object_keys ?q')"
    by (simp add: Object_keys_def)
  show ?thesis
    using minEmployees_maxEmployees_range
      [of ?q "''400''" "''300''" test_allowed REJECTEDVALUES_spec ?q' REJECTEDVALUES_spec
          "Some [''minSalary'', ''maxSalary'']"]
      h1 h2 h3 h4 h5 h6
    by simp
qed

text \<open>
  C5, as first stated: every queries map in which some value is a rejected value fails
  with "invalid query value", whichever key carries the value, and the rejected values
  cover the empty string, every whitespace-only string, "null" and "undefined". Two things
  fail. The allow-list check comes first: under a key outside the allow-list the error is
  "invalid query parameter". And the test is membership in a fixed list, so it cannot
  cover every whitespace-only string: with the values the specification names, two
  spaces pass; with any list at all, some string of spaces passes.
\<close>

theorem invalid_value_counterexample:
  "'''' \<in> set (Object_values [(''cats'', '''')])
   \<and> '''' \<in> set REJECTEDVALUES_spec
   \<and> sqlForFilterQueries REJECTEDVALUES_spec [(''cats'', '''')] (Some test_allowed)
      = Inl (BadRequestError ''invalid query parameter'')
   \<and> sqlForFilterQueries REJECTEDVALUES_spec [(''cats'', '''')] (Some test_allowed)
      \<noteq> Inl (BadRequestError ''invalid query value'')
   \<and> list_all isStrWhiteSpaceChar ''  ''
   \<and> sqlForFilterQueries REJECTEDVALUES_spec [(''name'', ''  '')] (Some test_allowed)
      = Inr (''lower(name) LIKE '' @ [quote] @ ''%  %'' @ [quote])
   \<and> (\<forall>R. \<exists>n. 0 < n
          \<and> list_all isStrWhiteSpaceChar (replicate n CHR '' '')
          \<and> sqlForFilterQueries R [(''name'', replicate n CHR '' '')] (Some test_allowed)
            = Inr (''lower(name) LIKE '' @ [quote] @ ''%'' @ replicate n CHR '' '' @ ''%'' @ [quote]))"
proof -
  have r: "sqlForFilterQueries REJECTEDVALUES_spec [(''cats'', '''')] (Some test_allowed)
           = Inl (BadRequestError ''invalid query parameter'')"
    by (rule sqlForFilterQueries_not_allowed [of "''cats''"])
       (simp_all add: Object_keys_def test_allowed_def)
  have w: "list_all isStrWhiteSpaceChar ''  ''"
    by (simp add: isStrWhiteSpaceChar_def code_unit_def)
  have t: "sqlForFilterQueries REJECTEDVALUES_spec [(''name'', ''  '')] (Some test_allowed)
      = Inr (''lower(name) LIKE '' @ [quote] @ ''%  %'' @ [quote])"
    by code_simp
  have sp: "\<And>n. list_all isStrWhiteSpaceChar (replicate n CHR '' '')"
    by (simp add: list_all_iff isStrWhiteSpaceChar_def code_unit_def)
  have fr: "\<And>n. spec_fragment ''name'' (replicate n CHR '' '')
            = ''lower(name) LIKE '' @ [quote] @ ''%'' @ replicate n CHR '' '' @ ''%'' @ [quote]"
    by (simp add: spec_fragment_def toLowerCase_spaces)
  have g: "\<forall>R. \<exists>n. 0 < n
          \<and> list_all isStrWhiteSpaceChar (replicate n CHR '' '')
          \<and> sqlForFilterQueries R [(''name'', replicate n CHR '' '')] (Some test_allowed)
            = Inr (''lower(name) LIKE '' @ [quote] @ ''%'' @ replicate n CHR '' '' @ ''%'' @ [quote])"
  proof
    fix R
    have "''name'' \<in> set test_allowed"
      by (simp add: test_allowed_def)
    then obtain n where "0 < n"
      and "sqlForFilterQueries R [(''name'', replicate n CHR '' '')] (Some test_allowed)
           = Inr (spec_fragment ''name'' (replicate n CHR '' ''))"
      using whitespace_value_accepted by blast
    then show "\<exists>n. 0 < n
          \<and> list_all isStrWhiteSpaceChar (replicate n CHR '' '')
          \<and> sqlForFilterQueries R [(''name'', replicate n CHR '' '')] (Some test_allowed)
            = Inr (''lower(name) LIKE '' @ [quote] @ ''%'' @ replicate n CHR '' '' @ ''%'' @ [quote])"
      using sp fr by (intro exI [of _ n]) simp
  qed
  have m: "'''' \<in> set (Object_values [(''cats'', '''')])" "'''' \<in> set REJECTEDVALUES_spec"
    by (simp_all add: Object_values_def REJECTEDVALUES_spec_def)
  have ne: "sqlForFilterQueries REJECTEDVALUES_spec [(''cats'', '''')] (Some test_allowed)
      \<noteq> Inl (BadRequestError ''invalid query value'')"
    unfolding r by simp
  show ?thesis
    by (intro conjI) (rule m r ne w t g)+
qed

text \<open>
  C5, amended. For every queries map whose keys are all in the allow-list and in which
  some value is a member of the rejected values, \<open>sqlForFilterQueries\<close> fails with the
  bad-request error "invalid query value", whichever of the allowed keys carries the
  value. With the rejected values the specification names, that covers the empty string,
  the string of one space, "null" and "undefined". It does not cover every
  whitespace-only string: whatever the rejected values are, under every allowed key some
  string of spaces is accepted and compiled into a fragment.
\<close>

theorem sqlForFilterQueries_invalid_value:
  "(set (Object_keys queries) \<subseteq> set allowed
      \<and> v \<in> set (Object_values queries) \<and> v \<in> set REJECTEDVALUES
    \<longrightarrow> sqlForFilterQueries REJECTEDVALUES queries (Some allowed)
        = Inl (BadRequestError ''invalid query value''))
   \<and> (set (Object_keys queries) \<subseteq> set allowed
      \<and> v \<in> set (Object_values queries) \<and> v \<in> set ['''', '' '', ''null'', ''undefined'']
    \<longrightarrow> sqlForFilterQueries REJECTEDVALUES_spec queries (Some allowed)
        = Inl (BadRequestError ''invalid query value''))
   \<and> (k \<in> set allowed
    \<longrightarrow> (\<exists>n. 0 < n
           \<and> sqlForFilterQueries REJECTEDVALUES [(k, replicate n CHR '' '')] (Some allowed)
             = Inr (spec_fragment k (replicate n CHR '' ''))))"
proof (intro conjI impI)
  assume "set (Object_keys queries) \<subseteq> set allowed
      \<and> v \<in> set (Object_values queries) \<and> v \<in> set REJECTEDVALUES"
  then show "sqlForFilterQueries REJECTEDVALUES queries (Some allowed)
        = Inl (BadRequestError ''invalid query value'')"
    using sqlForFilterQueries_rejected by blast
next
  assume "set (Object_keys queries) \<subseteq> set allowed
      \<and> v \<in> set (Object_values queries) \<and> v \<in> set ['''', '' '', ''null'', ''undefined'']"
  then have "set (Object_keys queries) \<subseteq> set allowed" "v \<in> set (Object_values queries)"
    "v \<in> set REJECTEDVALUES_spec"
    by (simp_all add: REJECTEDVALUES_spec_def)
  then show "sqlForFilterQueries REJECTEDVALUES_spec queries (Some allowed)
        = Inl (BadRequestError ''invalid query value'')"
    by (rule sqlForFilterQueries_rejected)
next
  assume "k \<in> set allowed"
  then show "\<exists>n. 0 < n
           \<and> sqlForFilterQueries REJECTEDVALUES [(k, replicate n CHR '' '')] (Some allowed)
             = Inr (spec_fragment k (replicate n CHR '' ''))"
    by (rule whitespace_value_accepted)
qed

theorem sqlForFilterQueries_invalid_value_witness:
  "set (Object_keys [(''name'', '' '')]) \<subseteq> set test_allowed
   \<and> '' '' \<in> set (Object_values [(''name'', '' '')])
   \<and> '' '' \<in> set REJECTEDVALUES_spec
   \<and> '' '' \<in> set ['''', '' '', ''null'', ''undefined'']
   \<and> sqlForFilterQueries REJECTEDVALUES_spec [(''name'', '' '')] (Some test_allowed)
      = Inl (BadRequestError ''invalid query value'')
   \<and> ''name'' \<in> set test_allowed
   \<and> (\<exists>n. 0 < n
        \<and> sqlForFilterQueries REJECTEDVALUES_spec [(''name'', replicate n CHR '' '')] (Some test_allowed)
          = Inr (spec_fragment ''name'' (replicate n CHR '' '')))"
proof -
  let ?q = "[(''name'', '' '')]"
  have h1: "set (Object_keys ?q) \<subseteq> set test_allowed"
    by (simp add: Object_keys_def test_allowed_def)
  have h2: "'' '' \<in> set (Object_values ?q)"
    by (simp add: Object_values_def)
  have h3: "'' '' \<in> set REJECTEDVALUES_spec"
    by (simp add: REJECTEDVALUES_spec_def)
  have h4: "'' '' \<in> set ['''', '' '', ''null'', ''undefined'']"
    by simp
  have h5: "''name'' \<in> set test_allowed"
    by (simp add: test_allowed_def)
  note t = sqlForFilterQueries_invalid_value
    [of ?q test_allowed "'' ''" REJECTEDVALUES_spec "''name''"]
  from t h1 h2 h3 have r: "sqlForFilterQueries REJECTEDVALUES_spec ?q (Some test_allowed)
      = Inl (BadRequestError ''invalid query value'')"
    by blast
  from t h5 have e: "\<exists>n. 0 < n
        \<and> sqlForFilterQueries REJECTEDVALUES_spec [(''name'', replicate n CHR '' '')] (Some test_allowed)
          = Inr (spec_fragment ''name'' (replicate n CHR '' ''))"
    by blast
  show ?thesis
    by (intro conjI) (rule h1 h2 h3 h4 r h5 e)+
qed

text \<open>
  C6. The claim, and the docstring of \<open>sqlForPartialUpdate\<close>, say that the column of a
  fragment is \<^verbatim>\<open>nameMap[key]\<close> if the key is contained in the name map, else the key. The
  code takes \<^verbatim>\<open>jsToSql[colName] || colName\<close>, which is not that test. For the data
  \<^verbatim>\<open>{constructor: 'x'}\<close> and the empty name map, the one \<^verbatim>\<open>Job.update\<close> passes, the read
  finds the inherited function \<^verbatim>\<open>Object\<close> and the column is its text, not the key; for a
  name map that holds the empty string for a key, the key is used, not the value held.
  The positions and the values are as the claim says.
\<close>

theorem sqlForPartialUpdate_column_divergence:
  "sqlForPartialUpdate [(''constructor'', ''x'')] Map.empty
     = Inr \<lparr>setCols = [dquote] @ ''function Object() { [native code] }'' @ [dquote] @ ''=$1'',
            values' = [''x'']\<rparr>
   \<and> spec_compileUpdate [(''constructor'', ''x'')] Map.empty
     = \<lparr>setCols = [dquote] @ ''constructor'' @ [dquote] @ ''=$1'', values' = [''x'']\<rparr>
   \<and> sqlForPartialUpdate [(''constructor'', ''x'')] Map.empty
     \<noteq> Inr (spec_compileUpdate [(''constructor'', ''x'')] Map.empty)
   \<and> sqlForPartialUpdate [(''firstName'', ''Aliya'')] [''firstName'' \<mapsto> '''']
     = Inr \<lparr>setCols = [dquote] @ ''firstName'' @ [dquote] @ ''=$1'', values' = [''Aliya'']\<rparr>
   \<and> spec_compileUpdate [(''firstName'', ''Aliya'')] [''firstName'' \<mapsto> '''']
     = \<lparr>setCols = [dquote] @ '''' @ [dquote] @ ''=$1'', values' = [''Aliya'']\<rparr>
   \<and> sqlForPartialUpdate [(''firstName'', ''Aliya'')] [''firstName'' \<mapsto> '''']
     \<noteq> Inr (spec_compileUpdate [(''firstName'', ''Aliya'')] [''firstName'' \<mapsto> ''''])"
proof -
  have a: "sqlForPartialUpdate [(''constructor'', ''x'')] Map.empty
     = Inr \<lparr>setCols = [dquote] @ ''function Object() { [native code] }'' @ [dquote] @ ''=$1'',
            values' = [''x'']\<rparr>"
    by code_simp
  have b: "spec_compileUpdate [(''constructor'', ''x'')] Map.empty
     = \<lparr>setCols = [dquote] @ ''constructor'' @ [dquote] @ ''=$1'', values' = [''x'']\<rparr>"
    by code_simp
  have c: "sqlForPartialUpdate [(''firstName'', ''Aliya'')] [''firstName'' \<mapsto> '''']
     = Inr \<lparr>setCols = [dquote] @ ''firstName'' @ [dquote] @ ''=$1'', values' = [''Aliya'']\<rparr>"
    by code_simp
  have d: "spec_compileUpdate [(''firstName'', ''Aliya'')] [''firstName'' \<mapsto> '''']
     = \<lparr>setCols = [dquote] @ '''' @ [dquote] @ ''=$1'', values' = [''Aliya'']\<rparr>"
    by code_simp
  show ?thesis
    unfolding a b c d by simp
qed

text \<open>
  C7. For every name map, \<open>sqlForPartialUpdate\<close> on an empty data map fails with the
  bad-request error "No data"; it returns no (empty) update.
\<close>

theorem sqlForPartialUpdate_no_data:
  "sqlForPartialUpdate [] jsToSql = Inl (BadRequestError ''No data'')"
  by (simp add: sqlForPartialUpdate_def Object_keys_def)

text \<open>
  C8. For every queries map with the key \<^verbatim>\<open>hasEquity\<close>, the fragment produced for it, at
  the position of the key in the array of fragments that \<open>sqlForFilterQueries\<close> joins, is
  \<^verbatim>\<open>equity > 0\<close> when the value lower-cased is "true", and \<^verbatim>\<open>equity >= 0\<close> for every other
  value. Lower-cased to "true" are exactly the sixteen spellings of the four letters in
  either case.
\<close>

theorem hasEquity_fragment:
  assumes "distinct (Object_keys queries)"
    and "i < length queries"
    and "queries ! i = (''hasEquity'', v)"
  shows "queryFragment queries ''hasEquity''
         = Inr (if toLowerCase v = ''true'' then ''equity > 0'' else ''equity >= 0'')
       \<and> (\<exists>queryString.
            Array_map (queryFragment queries) (Object_keys queries) = Inr queryString
            \<and> length queryString = length queries
            \<and> queryString ! i = (if toLowerCase v = ''true'' then ''equity > 0'' else ''equity >= 0'')
            \<and> (sqlForFilterQueries REJECTEDVALUES queries allowed = Inr s
                 \<longrightarrow> s = join '' AND '' queryString))
       \<and> (toLowerCase v = ''true'') =
           (\<exists>a b c d. v = [a, b, c, d] \<and> a \<in> {CHR ''t'', CHR ''T''} \<and> b \<in> {CHR ''r'', CHR ''R''}
              \<and> c \<in> {CHR ''u'', CHR ''U''} \<and> d \<in> {CHR ''e'', CHR ''E''})"
proof -
  let ?frs = "map (\<lambda>(key, val). spec_fragment key val) queries"
  have m: "(''hasEquity'', v) \<in> set queries"
    using assms(2,3) by (metis nth_mem)
  then have g: "get_property queries ''hasEquity'' = Some v"
    using assms(1) by (rule get_property_entry [rotated])
  have f: "spec_fragment ''hasEquity'' v
           = (if toLowerCase v = ''true'' then ''equity > 0'' else ''equity >= 0'')"
    by (simp add: spec_fragment_def)
  have a: "queryFragment queries ''hasEquity''
        = Inr (if toLowerCase v = ''true'' then ''equity > 0'' else ''equity >= 0'')"
    using queryFragment_value [OF g] f by simp
  have frs: "Array_map (queryFragment queries) (Object_keys queries) = Inr ?frs"
    using assms(1) by (rule Array_map_queryFragment)
  have nth: "?frs ! i = (if toLowerCase v = ''true'' then ''equity > 0'' else ''equity >= 0'')"
    using assms(2,3) f by simp
  have out: "sqlForFilterQueries REJECTEDVALUES queries allowed = Inr s \<longrightarrow> s = join '' AND '' ?frs"
    using sqlForFilterQueries_Inr [OF _ frs] by blast
  have b: "\<exists>queryString.
            Array_map (queryFragment queries) (Object_keys queries) = Inr queryString
            \<and> length queryString = length queries
            \<and> queryString ! i = (if toLowerCase v = ''true'' then ''equity > 0'' else ''equity >= 0'')
            \<and> (sqlForFilterQueries REJECTEDVALUES queries allowed = Inr s
                 \<longrightarrow> s = join '' AND '' queryString)"
    using frs nth out by (intro exI [of _ ?frs]) simp
  show ?thesis
    by (intro conjI) (rule a, rule b, rule toLowerCase_true_iff)
qed

theorem hasEquity_fragment_witness:
  "distinct (Object_keys [(''title'', ''manager''), (''hasEquity'', ''True'')])
   \<and> 1 < length [(''title'', ''manager''), (''hasEquity'', ''True'')]
   \<and> [(''title'', ''manager''), (''hasEquity'', ''True'')] ! 1 = (''hasEquity'', ''True'')
   \<and> toLowerCase ''True'' = ''true''
   \<and> queryFragment [(''title'', ''manager''), (''hasEquity'', ''True'')] ''hasEquity'' = Inr ''equity > 0''
   \<and> sqlForFilterQueries REJECTEDVALUES_spec [(''title'', ''manager''), (''hasEquity'', ''True'')]
        (Some test_allowed)
      = Inr (''lower(title) LIKE '' @ [quote] @ ''%manager%'' @ [quote] @ '' AND equity > 0'')
   \<and> distinct (Object_keys [(''hasEquity'', ''false'')])
   \<and> 0 < length [(''hasEquity'', ''false'')]
   \<and> [(''hasEquity'', ''false'')] ! 0 = (''hasEquity'', ''false'')
   \<and> toLowerCase ''false'' \<noteq> ''true''
   \<and> queryFragment [(''hasEquity'', ''false'')] ''hasEquity'' = Inr ''equity >= 0''
   \<and> sqlForFilterQueries REJECTEDVALUES_spec [(''hasEquity'', ''false'')] (Some test_allowed)
      = Inr ''equity >= 0''"
proof -
  let ?q = "[(''title'', ''manager''), (''hasEquity'', ''True'')]"
  let ?r = "[(''hasEquity'', ''false'')]"
  let ?s = "''lower(title) LIKE '' @ [quote] @ ''%manager%'' @ [quote] @ '' AND equity > 0''"
  have h1: "distinct (Object_keys ?q)" by (simp add: Object_keys_def)
  have h2: "1 < length ?q" by simp
  have h3: "?q ! 1 = (''hasEquity'', ''True'')" by simp
  have t1: "toLowerCase ''True'' = ''true''" by code_simp
  have e1: "sqlForFilterQueries REJECTEDVALUES_spec ?q (Some test_allowed) = Inr ?s"
    by code_simp
  have k1: "distinct (Object_keys ?r)" by (simp add: Object_keys_def)
  have k2: "0 < length ?r" by simp
  have k3: "?r ! 0 = (''hasEquity'', ''false'')" by simp
  have t2: "toLowerCase ''false'' \<noteq> ''true''" by code_simp
  have e2: "sqlForFilterQueries REJECTEDVALUES_spec ?r (Some test_allowed) = Inr ''equity >= 0''"
    by code_simp
  note w1 = hasEquity_fragment [OF h1 h2 h3, of REJECTEDVALUES_spec "Some test_allowed" ?s]
  note w2 = hasEquity_fragment [OF k1 k2 k3, of REJECTEDVALUES_spec "Some test_allowed" "''equity >= 0''"]
  from w1 t1 have q1: "queryFragment ?q ''hasEquity'' = Inr ''equity > 0''"
    by simp
  from w2 t2 have q2: "queryFragment ?r ''hasEquity'' = Inr ''equity >= 0''"
    by simp
  show ?thesis
    using h1 k1 t1 t2 e1 e2 q1 q2 by simp
qed

text \<open>
  C9. For the empty queries map, \<open>sqlForFilterQueries\<close> returns the empty string and
  raises no error, whatever the allow-list (a missing one included) and whatever the
  rejected values.
\<close>

theorem sqlForFilterQueries_empty:
  "sqlForFilterQueries REJECTEDVALUES [] allowed = Inr ''''"
  by (simp add: sqlForFilterQueries_def Object_keys_def Object_values_def)

text \<open>
  C10, as first stated: for every queries map with allowed keys in which the value of
  \<^verbatim>\<open>minEmployees\<close>, \<^verbatim>\<open>maxEmployees\<close> or \<^verbatim>\<open>minSalary\<close> is a string outside the rejected
  values that does not parse as a number, the compiler returns a fragment with the text
  NaN instead of failing. A non-numeric \<^verbatim>\<open>minSalary\<close> does not stop the range check of the
  other two keys, nor the rejected-value check of the other values, from failing.
\<close>

theorem non_numeric_value_counterexample:
  "set (Object_keys [(''minSalary'', ''abc''), (''minEmployees'', ''500''), (''maxEmployees'', ''100'')])
     \<subseteq> set test_allowed
   \<and> set (Object_values [(''minSalary'', ''abc''), (''minEmployees'', ''500''), (''maxEmployees'', ''100'')])
     \<inter> set REJECTEDVALUES_spec = {}
   \<and> StringToNumber ''abc'' = NaN
   \<and> sqlForFilterQueries REJECTEDVALUES_spec
        [(''minSalary'', ''abc''), (''minEmployees'', ''500''), (''maxEmployees'', ''100'')]
        (Some test_allowed)
      = Inl (BadRequestError ''minEmployees cannot be larger than maxEmployees'')
   \<and> set (Object_keys [(''minSalary'', ''abc''), (''title'', '''')]) \<subseteq> set test_allowed
   \<and> ''abc'' \<notin> set REJECTEDVALUES_spec
   \<and> sqlForFilterQueries REJECTEDVALUES_spec [(''minSalary'', ''abc''), (''title'', '''')] (Some test_allowed)
      = Inl (BadRequestError ''invalid query value'')"
proof -
  let ?q = "[(''minSalary'', ''abc''), (''minEmployees'', ''500''), (''maxEmployees'', ''100'')]"
  let ?r = "[(''minSalary'', ''abc''), (''title'', '''')]"
  have h2: "set (Object_keys ?q) \<subseteq> set test_allowed"
    by (simp add: Object_keys_def test_allowed_def)
  have h3: "set (Object_values ?q) \<inter> set REJECTEDVALUES_spec = {}"
    by (simp add: Object_values_def REJECTEDVALUES_spec_def)
  have n: "StringToNumber ''abc'' = NaN"
    by code_simp
  have g: "js_ge (StringToNumber ''500'') (StringToNumber ''100'')"
    by code_simp
  have a: "sqlForFilterQueries REJECTEDVALUES_spec ?q (Some test_allowed)
      = Inl (BadRequestError ''minEmployees cannot be larger than maxEmployees'')"
    using h2 h3 g
    by (intro sqlForFilterQueries_range [of ?q "''500''" "''100''"]) (simp_all add: get_property_def)
  have k: "set (Object_keys ?r) \<subseteq> set test_allowed"
    by (simp add: Object_keys_def test_allowed_def)
  have b: "sqlForFilterQueries REJECTEDVALUES_spec ?r (Some test_allowed)
      = Inl (BadRequestError ''invalid query value'')"
    using k by (rule sqlForFilterQueries_rejected [of _ _ "''''"])
      (simp_all add: Object_values_def REJECTEDVALUES_spec_def)
  have m: "''abc'' \<notin> set REJECTEDVALUES_spec"
    by (simp add: REJECTEDVALUES_spec_def)
  show ?thesis
    using h2 h3 n a k b m by simp
qed

text \<open>
  C10, amended. For every queries map whose keys are all allowed and none of whose values
  is rejected, in which the value of \<^verbatim>\<open>minEmployees\<close>, \<^verbatim>\<open>maxEmployees\<close> or \<^verbatim>\<open>minSalary\<close> is
  not a numeric literal (after trimming): unary plus yields NaN; every comparison
  \<^verbatim>\<open>>=\<close> with it is false, so the range check does not throw on its account; the fragment
  of the key ends in the text NaN; and \<open>sqlForFilterQueries\<close> returns a string that
  contains this fragment, provided that, when the key is \<^verbatim>\<open>minSalary\<close>, the pair
  \<^verbatim>\<open>minEmployees\<close>, \<^verbatim>\<open>maxEmployees\<close> does not itself fail the range check.
\<close>

theorem non_numeric_value_gives_NaN:
  assumes "distinct (Object_keys queries)"
    and "set (Object_keys queries) \<subseteq> set allowed"
    and "set (Object_values queries) \<inter> set REJECTEDVALUES = {}"
    and "(k, v) \<in> set queries"
    and "k = ''minEmployees'' \<or> k = ''maxEmployees'' \<or> k = ''minSalary''"
    and "trimString v \<noteq> [] \<and> StrNumericLiteral (trimString v) = None"
    and "k = ''minSalary'' \<longrightarrow>
         \<not> (''minEmployees'' \<in> set (Object_keys queries) \<and> ''maxEmployees'' \<in> set (Object_keys queries)
            \<and> js_ge (unary_plus (get_property queries ''minEmployees''))
                     (unary_plus (get_property queries ''maxEmployees'')))"
  shows "unary_plus (get_property queries k) = NaN
       \<and> \<not> js_ge (unary_plus (get_property queries k)) x
       \<and> \<not> js_ge x (unary_plus (get_property queries k))
       \<and> queryFragment queries k
         = Inr (if k = ''minEmployees'' then ''num_employees >= NaN''
                else if k = ''maxEmployees'' then ''num_employees <= NaN''
                else ''salary >= NaN'')
       \<and> (\<exists>ps ss. sqlForFilterQueries REJECTEDVALUES queries (Some allowed)
             = Inr (ps @ (if k = ''minEmployees'' then ''num_employees >= NaN''
                          else if k = ''maxEmployees'' then ''num_employees <= NaN''
                          else ''salary >= NaN'') @ ss))"
proof -
  let ?frag = "if k = ''minEmployees'' then ''num_employees >= NaN''
               else if k = ''maxEmployees'' then ''num_employees <= NaN''
               else ''salary >= NaN''"
  have n: "StringToNumber v = NaN"
    using assms(6) by (simp add: StringToNumber_NaN_iff)
  have g: "get_property queries k = Some v"
    using assms(1,4) by (rule get_property_entry)
  then have u: "unary_plus (get_property queries k) = NaN"
    using n by (simp add: unary_plus_def)
  have f: "spec_fragment k v = ?frag"
    using n assms(5) by (rule spec_fragment_NaN)
  have qf: "queryFragment queries k = Inr ?frag"
    using queryFragment_value [OF g] f by simp
  have range: "\<not> (''minEmployees'' \<in> set (Object_keys queries) \<and> ''maxEmployees'' \<in> set (Object_keys queries)
            \<and> js_ge (unary_plus (get_property queries ''minEmployees''))
                     (unary_plus (get_property queries ''maxEmployees'')))"
    using assms(5)
  proof (elim disjE)
    assume "k = ''minEmployees''"
    with u show ?thesis by simp
  next
    assume "k = ''maxEmployees''"
    with u show ?thesis by (simp add: js_ge_NaN_right)
  next
    assume "k = ''minSalary''"
    with assms(7) show ?thesis by blast
  qed
  have r: "sqlForFilterQueries REJECTEDVALUES queries (Some allowed) = Inr (spec_compileFilter queries)"
    using assms(1,2,3) range by (rule sqlForFilterQueries_valid)
  have "spec_fragment k v \<in> set (map (\<lambda>(key, val). spec_fragment key val) queries)"
    using assms(4) by force
  then obtain ps ss where "spec_compileFilter queries = ps @ spec_fragment k v @ ss"
    unfolding spec_compileFilter_def using join_contains by blast
  with r f have "\<exists>ps ss. sqlForFilterQueries REJECTEDVALUES queries (Some allowed) = Inr (ps @ ?frag @ ss)"
    by auto
  with u qf show ?thesis
    by (simp add: js_ge_NaN_right)
qed

theorem non_numeric_value_gives_NaN_witness:
  "distinct (Object_keys [(''title'', ''manager''), (''minSalary'', ''abc'')])
   \<and> set (Object_keys [(''title'', ''manager''), (''minSalary'', ''abc'')]) \<subseteq> set test_allowed
   \<and> set (Object_values [(''title'', ''manager''), (''minSalary'', ''abc'')]) \<inter> set REJECTEDVALUES_spec = {}
   \<and> (''minSalary'', ''abc'') \<in> set [(''title'', ''manager''), (''minSalary'', ''abc'')]
   \<and> trimString ''abc'' \<noteq> []
   \<and> StrNumericLiteral (trimString ''abc'') = None
   \<and> ''minEmployees'' \<notin> set (Object_keys [(''title'', ''manager''), (''minSalary'', ''abc'')])
   \<and> unary_plus (get_property [(''title'', ''manager''), (''minSalary'', ''abc'')] ''minSalary'') = NaN
   \<and> queryFragment [(''title'', ''manager''), (''minSalary'', ''abc'')] ''minSalary'' = Inr ''salary >= NaN''
   \<and> sqlForFilterQueries REJECTEDVALUES_spec [(''title'', ''manager''), (''minSalary'', ''abc'')]
        (Some test_allowed)
      = Inr (''lower(title) LIKE '' @ [quote] @ ''%manager%'' @ [quote] @ '' AND salary >= NaN'')"
proof -
  let ?q = "[(''title'', ''manager''), (''minSalary'', ''abc'')]"
  have h1: "distinct (Object_keys ?q)" by (simp add: Object_keys_def)
  have h2: "set (Object_keys ?q) \<subseteq> set test_allowed"
    by (simp add: Object_keys_def test_allowed_def)
  have h3: "set (Object_values ?q) \<inter> set REJECTEDVALUES_spec = {}"
    by (simp add: Object_values_def REJECTEDVALUES_spec_def)
  have h4: "(''minSalary'', ''abc'') \<in> set ?q" by simp
  have h5: "''minSalary'' = ''minEmployees'' \<or> ''minSalary'' = ''maxEmployees'' \<or> ''minSalary'' = ''minSalary''"
    by simp
  have h6: "trimString ''abc'' \<noteq> [] \<and> StrNumericLiteral (trimString ''abc'') = None"
    by code_simp
  have h7: "''minEmployees'' \<notin> set (Object_keys ?q)" by (simp add: Object_keys_def)
  then have h8: "''minSalary'' = ''minSalary'' \<longrightarrow>
         \<not> (''minEmployees'' \<in> set (Object_keys ?q) \<and> ''maxEmployees'' \<in> set (Object_keys ?q)
            \<and> js_ge (unary_plus (get_property ?q ''minEmployees''))
                     (unary_plus (get_property ?q ''maxEmployees'')))"
    by simp
  have e: "sqlForFilterQueries REJECTEDVALUES_spec ?q (Some test_allowed)
      = Inr (''lower(title) LIKE '' @ [quote] @ ''%manager%'' @ [quote] @ '' AND salary >= NaN'')"
    by code_simp
  show ?thesis
    using non_numeric_value_gives_NaN [OF h1 h2 h3 h4 h5 h6 h8] h1 h2 h3 h6 h7 e
    by simp
qed

end
